theory Spec2Isabelle
  imports Main "HOL-Library.AList"
begin

section \<open>Common data\<close>

text \<open>
  Python text is modelled as \<^typ>\<open>string\<close>, a list of 8-bit characters holding the UTF-8
  encoding of the text. A \<^verbatim>\<open>bytes\<close> value is a list of such characters as well, each
  one byte.
  A process environment is a dictionary from names to values; Python dictionaries keep
  insertion order and an assignment to an existing key replaces its value in place, which is
  what \<^const>\<open>AList.update\<close> does on an association list.
\<close>

type_synonym bytes = "char list"
type_synonym environ = "(string \<times> string) list"

text \<open>The exceptions (all subclasses of Python's \<^verbatim>\<open>Exception\<close>) that the two modules can meet.\<close>

datatype py_exception =
    KeyError string
  | ValueError string
  | FileNotFoundError string
  | UnicodeDecodeError string
  | OSError string
  | TypeError string

text \<open>\<^verbatim>\<open>str(e)\<close>: the message an exception prints as.\<close>

fun exn_str :: "py_exception \<Rightarrow> string" where
  "exn_str (KeyError m) = m"
| "exn_str (ValueError m) = m"
| "exn_str (FileNotFoundError m) = m"
| "exn_str (UnicodeDecodeError m) = m"
| "exn_str (OSError m) = m"
| "exn_str (TypeError m) = m"

text \<open>What a run does to the outside, in the order it does it.\<close>

datatype log_level = INFO | WARNING | ERROR

datatype event =
    PrintOut string
  | PrintErr string
  | Popen "string list" "environ option"
  | Run "string list"
  | CallEncode string string string
  | Mkdir "string list"
  | OpenLog "string list"
  | Log log_level string

text \<open>\<^verbatim>\<open>sep.join(xs)\<close>\<close>

fun join :: "string \<Rightarrow> string list \<Rightarrow> string" where
  "join sep [] = []"
| "join sep [x] = x"
| "join sep (x # y # ys) = x @ sep @ join sep (y # ys)"

definition quote :: string where
  "quote = [CHR 0x27]"

text \<open>\<^verbatim>\<open>str()\<close> of a Boolean and of an integer.\<close>

definition str_bool :: "bool \<Rightarrow> string" where
  "str_bool b = (if b then ''True'' else ''False'')"

function str_nat :: "nat \<Rightarrow> string" where
  "str_nat n =
     (if n < 10 then [''0123456789'' ! n]
      else str_nat (n div 10) @ [''0123456789'' ! (n mod 10)])"
  by pat_completeness auto
termination
  by (relation "measure id") auto

declare str_nat.simps [simp del]

definition str_int :: "int \<Rightarrow> string" where
  "str_int i = (if i < 0 then ''-'' @ str_nat (nat (- i)) else str_nat (nat i))"

text \<open>Two lower-case hexadecimal digits, as \<^verbatim>\<open>%02x\<close> formats a byte.\<close>

definition hex2 :: "nat \<Rightarrow> string" where
  "hex2 b = [''0123456789abcdef'' ! (b div 16), ''0123456789abcdef'' ! (b mod 16)]"

section \<open>Decoding UTF-8 (\<^verbatim>\<open>bytes.decode('utf-8')\<close>)\<close>

text \<open>
  The strict decoder accepts exactly the well-formed byte sequences of the Unicode standard
  (no overlong forms, no surrogates, nothing above U+10FFFF) and raises
  \<^verbatim>\<open>UnicodeDecodeError\<close> at the first ill-formed sequence. The exception prints with the
  offending byte or byte range, its position and one of three reasons, so the model follows
  the decoder of CPython step by step: \<open>utf8_head\<close> looks at the bytes that remain and gives
  either the length of the well-formed sequence at their head or the length and the reason of
  the error there.
\<close>

definition invalid_start_byte :: string where
  "invalid_start_byte = ''invalid start byte''"

definition invalid_continuation_byte :: string where
  "invalid_continuation_byte = ''invalid continuation byte''"

definition unexpected_end_of_data :: string where
  "unexpected_end_of_data = ''unexpected end of data''"

definition is_continuation :: "nat \<Rightarrow> bool" where
  "is_continuation c \<longleftrightarrow> 0x80 \<le> c \<and> c < 0xC0"

definition utf8_head :: "nat list \<Rightarrow> nat + nat \<times> string" where
  "utf8_head bs =
     (let b = bs ! 0; n = length bs; c2 = bs ! 1; c3 = bs ! 2; c4 = bs ! 3 in
      if b < 0x80 then Inl 1
      else if b < 0xE0 then
        (if b < 0xC2 then Inr (1, invalid_start_byte)
         else if n < 2 then Inr (n, unexpected_end_of_data)
         else if \<not> is_continuation c2 then Inr (1, invalid_continuation_byte)
         else Inl 2)
      else if b < 0xF0 then
        (if n < 3 then
           (if n < 2 then Inr (n, unexpected_end_of_data)
            else if \<not> is_continuation c2 \<or> (if c2 < 0xA0 then b = 0xE0 else b = 0xED)
              then Inr (1, invalid_continuation_byte)
            else Inr (n, unexpected_end_of_data))
         else if \<not> is_continuation c2 then Inr (1, invalid_continuation_byte)
         else if b = 0xE0 \<and> c2 < 0xA0 then Inr (1, invalid_continuation_byte)
         else if b = 0xED \<and> 0xA0 \<le> c2 then Inr (1, invalid_continuation_byte)
         else if \<not> is_continuation c3 then Inr (2, invalid_continuation_byte)
         else Inl 3)
      else if b < 0xF5 then
        (if n < 4 then
           (if n < 2 then Inr (n, unexpected_end_of_data)
            else if \<not> is_continuation c2 \<or> (if c2 < 0x90 then b = 0xF0 else b = 0xF4)
              then Inr (1, invalid_continuation_byte)
            else if n < 3 then Inr (n, unexpected_end_of_data)
            else if \<not> is_continuation c3 then Inr (2, invalid_continuation_byte)
            else Inr (n, unexpected_end_of_data))
         else if \<not> is_continuation c2 then Inr (1, invalid_continuation_byte)
         else if b = 0xF0 \<and> c2 < 0x90 then Inr (1, invalid_continuation_byte)
         else if b = 0xF4 \<and> 0x90 \<le> c2 then Inr (1, invalid_continuation_byte)
         else if \<not> is_continuation c3 then Inr (2, invalid_continuation_byte)
         else if \<not> is_continuation c4 then Inr (3, invalid_continuation_byte)
         else Inl 4)
      else Inr (1, invalid_start_byte))"

lemma utf8_head_consumed: "utf8_head bs = Inl n \<Longrightarrow> 0 < n"
  by (simp add: utf8_head_def Let_def split: if_splits)

text \<open>
  The first error of a byte sequence, scanned from position \<open>pos\<close>: its position, its
  length, its first byte and the reason; \<^term>\<open>None\<close> when the sequence is well formed.
\<close>

function utf8_error :: "nat \<Rightarrow> nat list \<Rightarrow> (nat \<times> nat \<times> nat \<times> string) option" where
  "utf8_error pos [] = None"
| "utf8_error pos (b # bs) =
     (case utf8_head (b # bs) of
        Inl n \<Rightarrow> utf8_error (pos + n) (drop n (b # bs))
      | Inr (len, reason) \<Rightarrow> Some (pos, len, b, reason))"
  by pat_completeness auto
termination
  by (relation "measure (\<lambda>(pos, bs). length bs)") (auto dest: utf8_head_consumed)

text \<open>\<^verbatim>\<open>str(e)\<close> of the \<^verbatim>\<open>UnicodeDecodeError\<close>: one byte is named, a longer range is not.\<close>

definition decode_error_message :: "nat \<Rightarrow> nat \<Rightarrow> nat \<Rightarrow> string \<Rightarrow> string" where
  "decode_error_message pos len b reason =
     (if len = 1 then
        quote @ ''utf-8'' @ quote @ '' codec can'' @ quote @ ''t decode byte 0x'' @ hex2 b @
        '' in position '' @ str_nat pos @ '': '' @ reason
      else
        quote @ ''utf-8'' @ quote @ '' codec can'' @ quote @ ''t decode bytes in position '' @
        str_nat pos @ ''-'' @ str_nat (pos + len - 1) @ '': '' @ reason)"

text \<open>
  The decoded text is represented by its UTF-8 encoding, so decoding a well-formed sequence
  gives back the same characters. \<^const>\<open>utf8_error\<close> reads the bytes as numbers.
\<close>

definition decode_utf8 :: "bytes \<Rightarrow> py_exception + string" where
  "decode_utf8 bs =
     (case utf8_error 0 (map of_char bs) of
        None \<Rightarrow> Inr bs
      | Some (pos, len, b, reason) \<Rightarrow>
          Inl (UnicodeDecodeError (decode_error_message pos len b reason)))"

section \<open>The encoding module (\<^verbatim>\<open>ffmpeg_encode.py\<close>)\<close>

subsection \<open>The profile catalog\<close>

text \<open>
  A profile is a dictionary with the keys \<^verbatim>\<open>codec\<close>, \<^verbatim>\<open>profile\<close>,
  \<^verbatim>\<open>level\<close>, \<^verbatim>\<open>pix_fmt\<close> and \<^verbatim>\<open>extra_args\<close>, each of which may be absent:
  the code tests \<^verbatim>\<open>'profile' in profile\<close> and \<^verbatim>\<open>'level' in profile\<close>, reads
  \<^verbatim>\<open>extra_args\<close> and (in the controller) \<^verbatim>\<open>codec\<close> with a default, and indexes
  \<^verbatim>\<open>codec\<close> and \<^verbatim>\<open>pix_fmt\<close> directly, which raises \<^verbatim>\<open>KeyError\<close> on an absent key.
\<close>

record encoding_profile =
  codec :: "string option"
  profile :: "string option"
  level :: "string option"
  pix_fmt :: "string option"
  extra_args :: "string list option"

definition ENCODING_PROFILES :: "(string \<times> encoding_profile) list" where
  "ENCODING_PROFILES =
    [(''prores_422_hq_10bit'',
        \<lparr>codec = Some ''prores_ks'', profile = Some ''3'', level = None,
         pix_fmt = Some ''yuv422p10le'', extra_args = Some [''-vendor'', ''apl0'']\<rparr>),
     (''prores_444_16bit'',
        \<lparr>codec = Some ''prores_ks'', profile = Some ''4'', level = None,
         pix_fmt = Some ''yuv444p16le'', extra_args = Some [''-vendor'', ''apl0'']\<rparr>),
     (''ffv1_10bit_422'',
        \<lparr>codec = Some ''ffv1'', profile = None, level = Some ''3'',
         pix_fmt = Some ''yuv422p10le'',
         extra_args = Some [''-coder'', ''1'', ''-context'', ''1'', ''-g'', ''1'']\<rparr>),
     (''ffv1_12bit_444'',
        \<lparr>codec = Some ''ffv1'', profile = None, level = Some ''3'',
         pix_fmt = Some ''yuv444p12le'',
         extra_args = Some [''-coder'', ''1'', ''-context'', ''1'', ''-g'', ''1'']\<rparr>)]"

text \<open>An empty dictionary is falsy: \<^verbatim>\<open>not profile\<close> holds for it as it does for \<^verbatim>\<open>None\<close>.\<close>

definition is_empty_profile :: "encoding_profile \<Rightarrow> bool" where
  "is_empty_profile p \<longleftrightarrow>
     codec p = None \<and> profile p = None \<and> level p = None \<and> pix_fmt p = None \<and>
     extra_args p = None"

text \<open>\<^verbatim>\<open>d[key]\<close>\<close>

definition getitem :: "string \<Rightarrow> 'a option \<Rightarrow> py_exception + 'a" where
  "getitem key v = (case v of None \<Rightarrow> Inl (KeyError (quote @ key @ quote)) | Some x \<Rightarrow> Inr x)"

subsection \<open>Building the two commands\<close>

definition vspipe_cmd :: "string \<Rightarrow> string list" where
  "vspipe_cmd vpy_script = [''vspipe'', ''-c'', ''y4m'', vpy_script, ''-'']"

text \<open>
  Lines 67 to 93: the list literal, whose two indexings may raise, then the three
  conditional or unconditional \<^verbatim>\<open>extend\<close> calls and the final one.
\<close>

definition ffmpeg_cmd ::
  "encoding_profile \<Rightarrow> string \<Rightarrow> string \<Rightarrow> py_exception + string list" where
  "ffmpeg_cmd p input_path output_path =
     (case getitem ''codec'' (codec p) of
        Inl e \<Rightarrow> Inl e
      | Inr c \<Rightarrow>
     (case getitem ''pix_fmt'' (pix_fmt p) of
        Inl e \<Rightarrow> Inl e
      | Inr pf \<Rightarrow>
          (let cmd0 = [''ffmpeg'',
                       ''-i'', ''pipe:0'',
                       ''-i'', input_path,
                       ''-map'', ''0:v'',
                       ''-map'', ''1:a?'',
                       ''-map'', ''1:s?'',
                       ''-c:v'', c,
                       ''-pix_fmt'', pf];
               cmd1 = (case profile p of
                         Some v \<Rightarrow> cmd0 @ [''-profile:v'', v]
                       | None \<Rightarrow> cmd0);
               cmd2 = (case level p of
                         Some v \<Rightarrow> cmd1 @ [''-level:v'', v]
                       | None \<Rightarrow> cmd1);
               cmd3 = cmd2 @ (case extra_args p of Some xs \<Rightarrow> xs | None \<Rightarrow> []);
               cmd4 = cmd3 @ [''-c:a'', ''copy'', ''-c:s'', ''copy'', ''-y'', output_path]
           in Inr cmd4)))"

subsection \<open>Running the pipeline\<close>

text \<open>
  What the operating system answers to one call of \<^verbatim>\<open>encode_video\<close>: whether each
  \<^verbatim>\<open>Popen\<close> launches its process or raises, the exit status of the frame source (which the
  code never reads), and what \<^verbatim>\<open>communicate()\<close> returns for the encoder: its exit
  status and the bytes it wrote to standard error.
\<close>

record proc_world =
  vspipe_spawn :: "py_exception option"
  ffmpeg_spawn :: "py_exception option"
  vspipe_returncode :: int
  ffmpeg_returncode :: int
  ffmpeg_stderr :: bytes

text \<open>The two \<^verbatim>\<open>except\<close> clauses of lines 116 to 122; both return \<^verbatim>\<open>False\<close>.\<close>

definition handle_exn :: "py_exception \<Rightarrow> event list" where
  "handle_exn e =
     (case e of
        FileNotFoundError m \<Rightarrow>
          [PrintErr (''Error: Command not found. Is FFmpeg or VapourSynth in your system'' @
                     quote @ ''s PATH?''),
           PrintErr (exn_str e)]
      | _ \<Rightarrow> [PrintErr (''An unexpected error occurred: '' @ exn_str e)])"

text \<open>The \<^verbatim>\<open>try\<close> block of lines 99 to 114 with its handlers: events and the value returned.\<close>

definition run_pipeline ::
  "string list \<Rightarrow> string list \<Rightarrow> environ \<Rightarrow> proc_world \<Rightarrow> event list \<times> bool" where
  "run_pipeline vcmd fcmd process_env w =
     (case vspipe_spawn w of
        Some e \<Rightarrow> (Popen vcmd (Some process_env) # handle_exn e, False)
      | None \<Rightarrow>
     (case ffmpeg_spawn w of
        Some e \<Rightarrow> ([Popen vcmd (Some process_env), Popen fcmd None] @ handle_exn e, False)
      | None \<Rightarrow>
          (if ffmpeg_returncode w \<noteq> 0 then
             (case decode_utf8 (ffmpeg_stderr w) of
                Inl e \<Rightarrow>
                  ([Popen vcmd (Some process_env), Popen fcmd None,
                    PrintErr ''Error during FFmpeg execution:''] @ handle_exn e, False)
              | Inr text \<Rightarrow>
                  ([Popen vcmd (Some process_env), Popen fcmd None,
                    PrintErr ''Error during FFmpeg execution:'', PrintErr text], False))
           else ([Popen vcmd (Some process_env), Popen fcmd None], True))))"

text \<open>
  \<^verbatim>\<open>encode_video\<close>: the events of the call, and either the exception that escapes it or the
  Boolean it returns.
\<close>

definition encode_video ::
  "string \<Rightarrow> string \<Rightarrow> string \<Rightarrow> string \<Rightarrow> environ \<Rightarrow> proc_world \<Rightarrow>
     event list \<times> (py_exception + bool)" where
  "encode_video input_path output_path format_name vpy_script process_env w =
     (let not_found =
            ([PrintErr (''Error: Encoding profile for '' @ quote @ format_name @ quote @
                        '' not found.'')], Inr False)
      in case map_of ENCODING_PROFILES format_name of
           None \<Rightarrow> not_found
         | Some p \<Rightarrow>
             if is_empty_profile p then not_found
             else
               (case ffmpeg_cmd p input_path output_path of
                  Inl e \<Rightarrow> ([], Inl e)
                | Inr fcmd \<Rightarrow>
                    (let vcmd = vspipe_cmd vpy_script;
                         (evs, ok) = run_pipeline vcmd fcmd process_env w
                     in ([PrintOut (''VSPipe command: '' @ join '' '' vcmd),
                          PrintOut (''FFmpeg command: '' @ join '' '' fcmd)] @ evs,
                         Inr ok))))"

section \<open>The controller (\<^verbatim>\<open>pipeline.py\<close>)\<close>

subsection \<open>Paths and text helpers\<close>

text \<open>
  A \<^verbatim>\<open>pathlib\<close> path is the list of its components, a drive such as \<^verbatim>\<open>G:\<close> being the
  first of them; joining with \<^verbatim>\<open>/\<close> appends, and the empty list is the relative path
  \<^verbatim>\<open>.\<close>, whose parent is itself. How a path prints and how two paths compare depends on the
  platform, which belongs to the outside world defined below.
\<close>

type_synonym path = "string list"

definition path_name :: "path \<Rightarrow> string" where
  "path_name p = (if p = [] then [] else last p)"

definition parent :: "path \<Rightarrow> path" where
  "parent p = butlast p"

text \<open>\<^verbatim>\<open>s.rfind(c)\<close>, with \<^term>\<open>None\<close> for Python's \<^verbatim>\<open>-1\<close>.\<close>

fun rfind :: "char \<Rightarrow> string \<Rightarrow> nat option" where
  "rfind c [] = None"
| "rfind c (x # xs) =
     (case rfind c xs of
        Some i \<Rightarrow> Some (Suc i)
      | None \<Rightarrow> if x = c then Some 0 else None)"

text \<open>
  \<^verbatim>\<open>PurePath.suffix\<close> and \<^verbatim>\<open>PurePath.stem\<close> as the standard library defines them up to
  Python 3.13: the name is cut at its last dot when \<^verbatim>\<open>0 < i < len(name) - 1\<close>.
\<close>

definition suffix_of :: "string \<Rightarrow> string" where
  "suffix_of name =
     (case rfind (CHR ''.'') name of
        Some i \<Rightarrow> if 0 < i \<and> i + 1 < length name then drop i name else []
      | None \<Rightarrow> [])"

definition stem_of :: "string \<Rightarrow> string" where
  "stem_of name =
     (case rfind (CHR ''.'') name of
        Some i \<Rightarrow> if 0 < i \<and> i + 1 < length name then take i name else name
      | None \<Rightarrow> name)"

definition suffix :: "path \<Rightarrow> string" where
  "suffix p = suffix_of (path_name p)"

definition stem :: "path \<Rightarrow> string" where
  "stem p = stem_of (path_name p)"

text \<open>\<^verbatim>\<open>sub in s\<close> on strings.\<close>

fun starts_with :: "string \<Rightarrow> string \<Rightarrow> bool" where
  "starts_with [] s = True"
| "starts_with (c # cs) [] = False"
| "starts_with (c # cs) (x # xs) = (c = x \<and> starts_with cs xs)"

fun str_contains :: "string \<Rightarrow> string \<Rightarrow> bool" where
  "str_contains sub [] = (sub = [])"
| "str_contains sub (x # xs) = (starts_with sub (x # xs) \<or> str_contains sub xs)"

subsection \<open>The configuration block and the outside world\<close>

record config =
  input_file :: path
  input_directory :: path
  output_base_directory :: path
  batch_process_directory :: bool
  process_subdirectories :: bool
  test_mode :: bool
  test_frames :: int
  enable_prores_422_hq_10bit :: bool
  enable_prores_444_16bit :: bool
  enable_ffv1_10bit_422 :: bool
  enable_ffv1_12bit_444 :: bool
  use_nvidia_gpu :: bool
  dithering_algorithm :: string
  enable_debanding :: bool
  debanding_strength :: string
  log_level :: string

text \<open>The values of the configuration block as the file ships.\<close>

definition shipped_config :: config where
  "shipped_config =
     \<lparr>input_file = [''G:'', ''YOUTUBE_CHANNEL_MEDIA'', ''DitheryDoo'', ''src'',
                    ''FULL MOON VIDEO HD.mkv''],
      input_directory = [''G:'', ''00_development_projects'', ''DitheryDoo'', ''input''],
      output_base_directory = [''G:'', ''YOUTUBE_CHANNEL_MEDIA'', ''DitheryDoo'', ''vapourized''],
      batch_process_directory = False,
      process_subdirectories = False,
      test_mode = False,
      test_frames = 200,
      enable_prores_422_hq_10bit = True,
      enable_prores_444_16bit = False,
      enable_ffv1_10bit_422 = False,
      enable_ffv1_12bit_444 = False,
      use_nvidia_gpu = True,
      dithering_algorithm = ''floyd_steinberg'',
      enable_debanding = True,
      debanding_strength = ''maximum'',
      log_level = ''INFO''\<rparr>"

text \<open>
  What the run finds outside itself: whether the platform is Windows; the case mappings
  \<^verbatim>\<open>str.lower\<close> and \<^verbatim>\<open>str.upper\<close>, which follow the Unicode tables of the interpreter and
  are taken as they come; the formatted clock reading; the directory of the script; the
  inherited environment; whether probing a tool or creating a directory raises; which paths
  are regular files; the entries below the input directory (relative paths, in the order
  \<^verbatim>\<open>glob\<close> yields them); and what the operating system answers to the \<open>i\<close>-th job's
  processes.
\<close>

record world =
  windows :: bool
  str_lower :: "string \<Rightarrow> string"
  str_upper :: "string \<Rightarrow> string"
  now :: string
  script_dir :: path
  os_environ :: environ
  tool_run :: "string \<Rightarrow> py_exception option"
  mkdir_raises :: "path \<Rightarrow> py_exception option"
  is_file :: "path \<Rightarrow> bool"
  dir_entries :: "path list"
  procs :: "nat \<Rightarrow> proc_world"

text \<open>How the interpreter ends: normally, by \<^verbatim>\<open>sys.exit(n)\<close>, or on an uncaught exception.\<close>

datatype outcome = Finished | SysExit int | Uncaught py_exception

fun exit_code :: "outcome \<Rightarrow> int" where
  "exit_code Finished = 0"
| "exit_code (SysExit n) = n"
| "exit_code (Uncaught e) = 1"

subsection \<open>Printing and comparing paths\<close>

text \<open>
  \<^verbatim>\<open>str(p)\<close> joins the components with the separator of the platform. Two paths name the
  same file when their components are equal, on Windows after lower-casing them: there
  \<^verbatim>\<open>pathlib\<close> compares without regard to case.
\<close>

definition path_sep :: "world \<Rightarrow> string" where
  "path_sep w = (if windows w then [CHR 0x5C] else ''/'')"

definition str_path :: "world \<Rightarrow> path \<Rightarrow> string" where
  "str_path w p = (if p = [] then ''.'' else join (path_sep w) p)"

definition same_path :: "world \<Rightarrow> path \<Rightarrow> path \<Rightarrow> bool" where
  "same_path w p q \<longleftrightarrow>
     (if windows w then map (str_lower w) p = map (str_lower w) q else p = q)"

text \<open>
  \<^verbatim>\<open>p.relative_to(base)\<close> raises \<^verbatim>\<open>ValueError\<close> when \<^verbatim>\<open>base\<close> does not lead to \<^verbatim>\<open>p\<close>;
  the message is that of Python 3.11 for paths that need no escaping.
\<close>

definition relative_to :: "world \<Rightarrow> path \<Rightarrow> path \<Rightarrow> py_exception + path" where
  "relative_to w p base =
     (if same_path w (take (length base) p) base then Inr (drop (length base) p)
      else Inl (ValueError
             (quote @ str_path w p @ quote @ '' is not in the subpath of '' @ quote @
              str_path w base @ quote @
              '' OR one path is relative and the other is absolute.'')))"

subsection \<open>Logging\<close>

text \<open>
  The numeric levels of the \<^verbatim>\<open>logging\<close> module. The level of the run is
  \<^verbatim>\<open>getattr(logging, log_level.upper(), logging.INFO)\<close>: an attribute of the module if the
  upper-cased name is one, \<^verbatim>\<open>INFO\<close> otherwise. The attributes whose names are their own upper
  case are the level constants and two that are no levels, \<^verbatim>\<open>BASIC_FORMAT\<close> (a string) and
  \<^verbatim>\<open>_STYLES\<close> (a dictionary); with these \<^verbatim>\<open>basicConfig\<close> raises when it sets the level,
  with the messages of Python 3.11.
\<close>

fun levelno :: "log_level \<Rightarrow> nat" where
  "levelno INFO = 20"
| "levelno WARNING = 30"
| "levelno ERROR = 40"

definition logging_level :: "world \<Rightarrow> config \<Rightarrow> py_exception + nat" where
  "logging_level w cfg =
     (let name = str_upper w (log_level cfg) in
      if name = ''NOTSET'' then Inr 0
      else if name = ''DEBUG'' then Inr 10
      else if name = ''INFO'' then Inr 20
      else if name = ''WARNING'' \<or> name = ''WARN'' then Inr 30
      else if name = ''ERROR'' then Inr 40
      else if name = ''CRITICAL'' \<or> name = ''FATAL'' then Inr 50
      else if name = ''BASIC_FORMAT'' then
        Inl (ValueError
              (''Unknown level: '' @ quote @ ''%(levelname)s:%(name)s:%(message)s'' @
               quote))
      else if name = ''_STYLES'' then
        Inl (TypeError
              (''Level not an integer or a valid string: {'' @ quote @ ''%'' @ quote @
               '': (<class '' @ quote @ ''logging.PercentStyle'' @ quote @ ''>, '' @
               quote @ ''%(levelname)s:%(name)s:%(message)s'' @ quote @ ''), '' @ quote @
               ''{'' @ quote @ '': (<class '' @ quote @ ''logging.StrFormatStyle'' @
               quote @ ''>, '' @ quote @ ''{levelname}:{name}:{message}'' @ quote @
               ''), '' @ quote @ ''$'' @ quote @ '': (<class '' @ quote @
               ''logging.StringTemplateStyle'' @ quote @ ''>, '' @ quote @
               ''${levelname}:${name}:${message}'' @ quote @ '')}''))
      else Inr 20)"

text \<open>
  A call of the logging module reaches the log file and the console when its level is at
  least the level of the run; every other event happens regardless.
\<close>

definition emitted :: "nat \<Rightarrow> event \<Rightarrow> bool" where
  "emitted threshold ev = (case ev of Log l m \<Rightarrow> threshold \<le> levelno l | _ \<Rightarrow> True)"

subsection \<open>Startup checks and file discovery\<close>

fun check_dependencies_from :: "world \<Rightarrow> string list \<Rightarrow> event list \<times> (py_exception + bool)" where
  "check_dependencies_from w [] = ([], Inr True)"
| "check_dependencies_from w (cmd # cmds) =
     (case tool_run w cmd of
        None \<Rightarrow>
          (let (evs, r) = check_dependencies_from w cmds in (Run [cmd, ''-h''] # evs, r))
      | Some (FileNotFoundError m) \<Rightarrow>
          ([Run [cmd, ''-h''],
            Log ERROR (''Dependency not found: '' @ cmd @
              ''. Please ensure it is installed and in your system'' @ quote @ ''s PATH.'')],
           Inr False)
      | Some e \<Rightarrow> ([Run [cmd, ''-h'']], Inl e))"

definition check_dependencies :: "world \<Rightarrow> event list \<times> (py_exception + bool)" where
  "check_dependencies w = check_dependencies_from w [''ffmpeg'', ''vspipe'']"

definition get_selected_format :: "config \<Rightarrow> string option" where
  "get_selected_format cfg =
     (let formats = [(''prores_422_hq_10bit'', enable_prores_422_hq_10bit cfg),
                     (''prores_444_16bit'', enable_prores_444_16bit cfg),
                     (''ffv1_10bit_422'', enable_ffv1_10bit_422 cfg),
                     (''ffv1_12bit_444'', enable_ffv1_12bit_444 cfg)];
          selected = map fst (filter snd formats)
      in if length selected = 1 then Some (selected ! 0) else None)"

definition supported_extensions :: "string list" where
  "supported_extensions = [''.mp4'', ''.mov'', ''.avi'', ''.mkv'', ''.mxf'', ''.m2v'']"

text \<open>
  \<^verbatim>\<open>Path(directory).glob(pattern)\<close>: the pattern \<^verbatim>\<open>*\<close> yields the entries directly in the
  directory, \<^verbatim>\<open>**/*\<close> those at any depth; each comes joined to the directory.
\<close>

definition glob :: "world \<Rightarrow> path \<Rightarrow> bool \<Rightarrow> path list" where
  "glob w directory recursive =
     map (\<lambda>rel. directory @ rel)
       (filter (\<lambda>rel. rel \<noteq> [] \<and> (recursive \<or> length rel = 1)) (dir_entries w))"

definition find_video_files :: "world \<Rightarrow> path \<Rightarrow> bool \<Rightarrow> path list" where
  "find_video_files w directory recursive =
     filter (\<lambda>p. is_file w p \<and> str_lower w (suffix p) \<in> set supported_extensions)
       (glob w directory recursive)"

subsection \<open>One job\<close>

text \<open>
  \<^verbatim>\<open>ffmpeg_encode.encode_video\<close> as the controller sees it: a callable that yields events and
  returns a Boolean or raises. The run passes the one of the encoding module; a test may pass
  another.
\<close>

type_synonym encoder =
  "string \<Rightarrow> string \<Rightarrow> string \<Rightarrow> string \<Rightarrow> environ \<Rightarrow> event list \<times> (py_exception + bool)"

definition job_env :: "config \<Rightarrow> world \<Rightarrow> path \<Rightarrow> string \<Rightarrow> environ" where
  "job_env cfg w input_path selected_format =
     (let env = os_environ w;
          env = AList.update ''VS_INPUT_PATH'' (str_path w input_path) env;
          env = AList.update ''VS_TARGET_FORMAT'' selected_format env;
          env = AList.update ''VS_USE_GPU'' (str_bool (use_nvidia_gpu cfg)) env;
          env = AList.update ''VS_DITHER_MODE'' (dithering_algorithm cfg) env;
          env = AList.update ''VS_TEST_FRAMES''
                  (if test_mode cfg then str_int (test_frames cfg) else ''0'') env;
          env = AList.update ''VS_ENABLE_DEBANDING'' (str_bool (enable_debanding cfg)) env;
          env = AList.update ''VS_DEBAND_STRENGTH'' (debanding_strength cfg) env
      in env)"

text \<open>
  \<^verbatim>\<open>process_file\<close>: the call of the encoder stands in a \<^verbatim>\<open>try\<close> whose handler catches every
  \<^verbatim>\<open>Exception\<close>, so the function itself never raises. \<^term>\<open>CallEncode\<close> marks the call;
  \<open>outcome_log\<close> is the one line logged once the call has returned or raised.
\<close>

definition outcome_log :: "world \<Rightarrow> py_exception + bool \<Rightarrow> path \<Rightarrow> path \<Rightarrow> event" where
  "outcome_log w r input_path output_path =
     (case r of
        Inr True \<Rightarrow>
          Log INFO (''Successfully processed and saved to '' @ str_path w output_path)
      | Inr False \<Rightarrow> Log ERROR (''Failed to process file: '' @ str_path w input_path)
      | Inl e \<Rightarrow>
          Log ERROR (''An unexpected error occurred while processing '' @
                     str_path w input_path @ '': '' @ exn_str e))"

definition process_file ::
  "encoder \<Rightarrow> config \<Rightarrow> world \<Rightarrow> path \<Rightarrow> path \<Rightarrow> string \<Rightarrow> path \<Rightarrow> event list" where
  "process_file enc cfg w input_path output_path selected_format vpy_script_path =
     (let env = job_env cfg w input_path selected_format;
          (evs, r) = enc (str_path w input_path) (str_path w output_path) selected_format
                       (str_path w vpy_script_path) env
      in [Log INFO (''Processing file: '' @ str_path w input_path),
          CallEncode (str_path w input_path) (str_path w output_path) selected_format] @ evs @
         [outcome_log w r input_path output_path])"

text \<open>Lines 223 to 227: the directory the job writes into.\<close>

definition output_file_dir :: "world \<Rightarrow> config \<Rightarrow> path \<Rightarrow> path \<Rightarrow> py_exception + path" where
  "output_file_dir w cfg output_dir file_path =
     (if batch_process_directory cfg then
        (case relative_to w file_path (input_directory cfg) of
           Inl e \<Rightarrow> Inl e
         | Inr relative_path \<Rightarrow> Inr (output_dir @ parent relative_path))
      else Inr output_dir)"

text \<open>Lines 231 to 237: the extension and the name of the output file.\<close>

definition file_ext :: "string \<Rightarrow> py_exception + string" where
  "file_ext selected_format =
     (case getitem selected_format (map_of ENCODING_PROFILES selected_format) of
        Inl e \<Rightarrow> Inl e
      | Inr p \<Rightarrow>
          (let ext = (case codec p of Some c \<Rightarrow> c | None \<Rightarrow> ''mov'')
           in Inr (if str_contains ''prores'' selected_format then ''mov''
                   else if str_contains ''ffv1'' selected_format then ''mkv''
                   else ext)))"

definition output_filename :: "path \<Rightarrow> string \<Rightarrow> string \<Rightarrow> py_exception + string" where
  "output_filename file_path timestamp selected_format =
     (case file_ext selected_format of
        Inl e \<Rightarrow> Inl e
      | Inr ext \<Rightarrow>
          Inr (stem file_path @ ''_'' @ timestamp @ ''_'' @ selected_format @ ''.'' @ ext))"

text \<open>The output path of a job: the two computations above, joined.\<close>

definition job_output_path ::
  "world \<Rightarrow> config \<Rightarrow> string \<Rightarrow> string \<Rightarrow> path \<Rightarrow> path \<Rightarrow> py_exception + path" where
  "job_output_path w cfg timestamp selected_format output_dir file_path =
     (case output_file_dir w cfg output_dir file_path of
        Inl e \<Rightarrow> Inl e
      | Inr d \<Rightarrow>
          (case output_filename file_path timestamp selected_format of
             Inl e \<Rightarrow> Inl e
           | Inr n \<Rightarrow> Inr (d @ [n])))"

text \<open>
  The body of the loop of lines 219 to 240 for the file at index \<open>i\<close>: its events, and the
  exception that leaves it, if any. Nothing in the body outside \<^verbatim>\<open>process_file\<close> is guarded.
\<close>

definition job_step ::
  "(nat \<Rightarrow> encoder) \<Rightarrow> config \<Rightarrow> world \<Rightarrow> string \<Rightarrow> string \<Rightarrow> path \<Rightarrow> path \<Rightarrow> nat \<Rightarrow>
     nat \<Rightarrow> path \<Rightarrow> event list \<times> py_exception option" where
  "job_step encs cfg w timestamp selected_format output_dir vpy_script_path total_files i
       file_path =
     (let head = [Log INFO (''--- Processing file '' @ str_nat (i + 1) @ ''/'' @
                            str_nat total_files @ '' ---'')]
      in case output_file_dir w cfg output_dir file_path of
           Inl e \<Rightarrow> (head, Some e)
         | Inr d \<Rightarrow>
             (case mkdir_raises w d of
                Some e \<Rightarrow> (head @ [Mkdir d], Some e)
              | None \<Rightarrow>
                  (case output_filename file_path timestamp selected_format of
                     Inl e \<Rightarrow> (head @ [Mkdir d], Some e)
                   | Inr n \<Rightarrow>
                       (head @ [Mkdir d] @
                        process_file (encs i) cfg w file_path (d @ [n]) selected_format
                          vpy_script_path,
                        None))))"

fun run_jobs ::
  "(nat \<Rightarrow> encoder) \<Rightarrow> config \<Rightarrow> world \<Rightarrow> string \<Rightarrow> string \<Rightarrow> path \<Rightarrow> path \<Rightarrow> nat \<Rightarrow>
     nat \<Rightarrow> path list \<Rightarrow> event list \<times> py_exception option" where
  "run_jobs encs cfg w timestamp selected_format output_dir vpy_script_path total_files i [] =
     ([], None)"
| "run_jobs encs cfg w timestamp selected_format output_dir vpy_script_path total_files i
       (file_path # files) =
     (case job_step encs cfg w timestamp selected_format output_dir vpy_script_path
             total_files i file_path of
        (evs, Some e) \<Rightarrow> (evs, Some e)
      | (evs, None) \<Rightarrow>
          (let (evs', r) = run_jobs encs cfg w timestamp selected_format output_dir
                             vpy_script_path total_files (Suc i) files
           in (evs @ evs', r)))"

subsection \<open>The run\<close>

text \<open>File discovery, lines 199 to 212: the events and the files, or the exit.\<close>

definition discover :: "config \<Rightarrow> world \<Rightarrow> event list \<times> (outcome + path list)" where
  "discover cfg w =
     (if batch_process_directory cfg then
        (let files = find_video_files w (input_directory cfg) (process_subdirectories cfg)
         in ([Log INFO (''Starting batch processing for directory: '' @
                        str_path w (input_directory cfg))] @
             (if files = [] then
                [Log WARNING ''No video files found in the specified directory.'']
              else []),
             Inr files))
      else
        (if is_file w (input_file cfg) then
           ([Log INFO (''Starting single file processing for: '' @ str_path w (input_file cfg))],
            Inr [input_file cfg])
         else
           ([Log INFO (''Starting single file processing for: '' @ str_path w (input_file cfg)),
             Log ERROR (''Input file not found: '' @ str_path w (input_file cfg))],
            Inl (SysExit 1))))"

text \<open>Everything after the format has been validated: lines 190 to 242.\<close>

definition run_selected ::
  "(nat \<Rightarrow> encoder) \<Rightarrow> config \<Rightarrow> world \<Rightarrow> string \<Rightarrow> path \<Rightarrow> string \<Rightarrow>
     event list \<times> outcome" where
  "run_selected encs cfg w timestamp output_dir selected_format =
     (let evs1 = [Log INFO (''Selected output format: '' @ selected_format),
                  Log INFO ''Checking dependencies (VapourSynth, FFmpeg)...''];
          (evs2, deps) = check_dependencies w
      in case deps of
           Inl e \<Rightarrow> (evs1 @ evs2, Uncaught e)
         | Inr False \<Rightarrow> (evs1 @ evs2, SysExit 1)
         | Inr True \<Rightarrow>
             (let evs3 = [Log INFO ''Dependencies check passed.''];
                  (evs4, found) = discover cfg w
              in case found of
                   Inl t \<Rightarrow> (evs1 @ evs2 @ evs3 @ evs4, t)
                 | Inr files_to_process \<Rightarrow>
                     (let vpy_script_path = script_dir w @ [''process.vpy''];
                          total_files = length files_to_process;
                          evs5 = [Log INFO (''Found '' @ str_nat total_files @
                                            '' file(s) to process.'')];
                          (evs6, raised) = run_jobs encs cfg w timestamp selected_format
                                             output_dir vpy_script_path total_files 0
                                             files_to_process
                      in case raised of
                           Some e \<Rightarrow> (evs1 @ evs2 @ evs3 @ evs4 @ evs5 @ evs6, Uncaught e)
                         | None \<Rightarrow>
                             (evs1 @ evs2 @ evs3 @ evs4 @ evs5 @ evs6 @
                              [Log INFO ''DitheryDoo processing finished.''],
                              Finished))))"

text \<open>
  Lines 181 to 242, everything that happens once logging is set up. In this function and in
  those above a \<^term>\<open>Log\<close> event is a call of the logging module, whatever the level of the
  run.
\<close>

definition main_body ::
  "(nat \<Rightarrow> encoder) \<Rightarrow> config \<Rightarrow> world \<Rightarrow> string \<Rightarrow> path \<Rightarrow> event list \<times> outcome" where
  "main_body encs cfg w timestamp output_dir =
     (let evs0 = [Log INFO ''DitheryDoo processing started.'',
                  Log INFO (''Output directory: '' @ str_path w output_dir),
                  Log INFO ''Validating configuration...'']
      in case get_selected_format cfg of
           None \<Rightarrow>
             (evs0 @ [Log ERROR
                ''Configuration error: Exactly one output format must be enabled.''],
              SysExit 1)
         | Some selected_format \<Rightarrow>
             (if selected_format = [] then
                (evs0 @ [Log ERROR
                   ''Configuration error: Exactly one output format must be enabled.''],
                 SysExit 1)
              else
                (let (evs, t) = run_selected encs cfg w timestamp output_dir selected_format
                 in (evs0 @ evs, t))))"

text \<open>
  \<^verbatim>\<open>main\<close>, with the encoder of each job as a parameter. The run's output directory and its
  log file are created first, before anything is validated. Then the level of the run is set,
  which may raise; from there on the trace holds the logging calls that the level lets
  through, and every other event.
\<close>

definition main_with :: "(nat \<Rightarrow> encoder) \<Rightarrow> config \<Rightarrow> world \<Rightarrow> event list \<times> outcome" where
  "main_with encs cfg w =
     (let timestamp = now w;
          output_dir = output_base_directory cfg @ [timestamp]
      in case mkdir_raises w output_dir of
           Some e \<Rightarrow> ([Mkdir output_dir], Uncaught e)
         | None \<Rightarrow>
             (let log_file = output_dir @ [''process.log'']
              in case logging_level w cfg of
                   Inl e \<Rightarrow> ([Mkdir output_dir, OpenLog log_file], Uncaught e)
                 | Inr threshold \<Rightarrow>
                     (let (evs, t) = main_body encs cfg w timestamp output_dir
                      in ([Mkdir output_dir, OpenLog log_file] @
                          filter (emitted threshold) evs, t))))"

text \<open>The encoder of the run: \<^const>\<open>encode_video\<close>, answered by the world of the job.\<close>

definition real_encoders :: "world \<Rightarrow> nat \<Rightarrow> encoder" where
  "real_encoders w i =
     (\<lambda>input_path output_path format_name vpy_script process_env.
        encode_video input_path output_path format_name vpy_script process_env (procs w i))"

definition main :: "config \<Rightarrow> world \<Rightarrow> event list \<times> outcome" where
  "main cfg w = main_with (real_encoders w) cfg w"

section \<open>Reference definitions and sample inputs\<close>

text \<open>
  The encoder arguments in the words of section 4.2 of the specification, one line per
  numbered step; the codec, pixel format, optional profile index, optional level and extra
  arguments are those of the profile.
\<close>

definition spec_encoder_args ::
  "string \<Rightarrow> string \<Rightarrow> string option \<Rightarrow> string option \<Rightarrow> string list \<Rightarrow> string \<Rightarrow> string \<Rightarrow>
     string list" where
  "spec_encoder_args c pf idx lvl extra input_path output_path =
     [''-i'', ''pipe:0''] @
     [''-i'', input_path] @
     [''-map'', ''0:v''] @
     [''-map'', ''1:a?''] @
     [''-map'', ''1:s?''] @
     [''-c:v'', c] @
     [''-pix_fmt'', pf] @
     (case idx of Some v \<Rightarrow> [''-profile:v'', v] | None \<Rightarrow> []) @
     (case lvl of Some v \<Rightarrow> [''-level:v'', v] | None \<Rightarrow> []) @
     extra @
     [''-c:a'', ''copy''] @
     [''-c:s'', ''copy''] @
     [''-y''] @
     [output_path]"

text \<open>An answer of the operating system in which both processes run and the encoder succeeds.\<close>

definition proc_success :: proc_world where
  "proc_success =
     \<lparr>vspipe_spawn = None, ffmpeg_spawn = None, vspipe_returncode = 0,
      ffmpeg_returncode = 0, ffmpeg_stderr = []\<rparr>"

text \<open>
  The arguments of the encoder command that stand between the two inputs and the destination,
  for a profile that has a codec and a pixel format.
\<close>

definition codec_options :: "encoding_profile \<Rightarrow> string list" where
  "codec_options p =
     [''-map'', ''0:v'', ''-map'', ''1:a?'', ''-map'', ''1:s?'', ''-c:v'',
      (case codec p of Some c \<Rightarrow> c | None \<Rightarrow> [])] @
     [''-pix_fmt'', (case pix_fmt p of Some pf \<Rightarrow> pf | None \<Rightarrow> [])] @
     (case profile p of Some v \<Rightarrow> [''-profile:v'', v] | None \<Rightarrow> []) @
     (case level p of Some v \<Rightarrow> [''-level:v'', v] | None \<Rightarrow> []) @
     (case extra_args p of Some xs \<Rightarrow> xs | None \<Rightarrow> []) @
     [''-c:a'', ''copy'', ''-c:s'', ''copy'', ''-y'']"

text \<open>
  An encoder that exits with status 1 after writing \<^verbatim>\<open>bad\<close> to standard error, and one that
  exits with status 1 after writing the single byte \<open>0xFF\<close>, which is not UTF-8.
\<close>

definition proc_nonzero_exit :: proc_world where
  "proc_nonzero_exit =
     \<lparr>vspipe_spawn = None, ffmpeg_spawn = None, vspipe_returncode = 0,
      ffmpeg_returncode = 1, ffmpeg_stderr = ''bad''\<rparr>"

definition proc_bad_stderr :: proc_world where
  "proc_bad_stderr =
     \<lparr>vspipe_spawn = None, ffmpeg_spawn = None, vspipe_returncode = 0,
      ffmpeg_returncode = 1, ffmpeg_stderr = [CHR 0xFF]\<rparr>"

text \<open>
  The case mappings restricted to the ASCII letters; on text without other letters they are
  Python's. The worlds of the examples use them.
\<close>

definition ascii_uppercase :: string where
  "ascii_uppercase = ''ABCDEFGHIJKLMNOPQRSTUVWXYZ''"

definition ascii_lowercase :: string where
  "ascii_lowercase = ''abcdefghijklmnopqrstuvwxyz''"

definition ascii_lower_char :: "char \<Rightarrow> char" where
  "ascii_lower_char c =
     (case map_of (zip ascii_uppercase ascii_lowercase) c of Some l \<Rightarrow> l | None \<Rightarrow> c)"

definition ascii_lower :: "string \<Rightarrow> string" where
  "ascii_lower s = map ascii_lower_char s"

definition ascii_upper_char :: "char \<Rightarrow> char" where
  "ascii_upper_char c =
     (case map_of (zip ascii_lowercase ascii_uppercase) c of Some u \<Rightarrow> u | None \<Rightarrow> c)"

definition ascii_upper :: "string \<Rightarrow> string" where
  "ascii_upper s = map ascii_upper_char s"

text \<open>
  A batch configuration and a world with a small input tree on a POSIX platform, for the
  examples.
\<close>

definition batch_config :: config where
  "batch_config =
     shipped_config\<lparr>batch_process_directory := True, process_subdirectories := True,
                    enable_prores_422_hq_10bit := False, enable_ffv1_10bit_422 := True\<rparr>"

definition sample_world :: world where
  "sample_world =
     \<lparr>windows = False,
      str_lower = ascii_lower,
      str_upper = ascii_upper,
      now = ''2024-01-01_00-00-00'',
      script_dir = [''app''],
      os_environ = [],
      tool_run = (\<lambda>cmd. None),
      mkdir_raises = (\<lambda>p. None),
      is_file = (\<lambda>p. path_name p \<noteq> ''a''),
      dir_entries = [[''clip.mov''], [''clip.mkv''], [''a''], [''a'', ''x.mkv'']],
      procs = (\<lambda>i. proc_success)\<rparr>"

text \<open>
  The same on Windows, with two inputs whose names differ in the case of the stem and in the
  extension.
\<close>

definition windows_world :: world where
  "windows_world =
     sample_world\<lparr>windows := True, dir_entries := [[''Clip.mov''], [''clip.mkv'']]\<rparr>"

text \<open>
  The shipped configuration with its one format flag switched off, and the same with the
  log level \<^verbatim>\<open>warning\<close>.
\<close>

definition no_format_config :: config where
  "no_format_config = shipped_config\<lparr>enable_prores_422_hq_10bit := False\<rparr>"

definition warning_config :: config where
  "warning_config = no_format_config\<lparr>log_level := ''warning''\<rparr>"

text \<open>
  Reading a trace: the calls of the encoder entry point, and the log lines. An encoder is
  plain when it neither logs nor calls itself; the encoder of the run is. \<open>job_call\<close> and
  \<open>job_log\<close> are the call and the three log lines that one job of the loop is expected to
  leave behind: the header, the start line and the outcome line.
\<close>

fun is_call :: "event \<Rightarrow> bool" where
  "is_call (CallEncode a b c) = True"
| "is_call ev = False"

fun is_log :: "event \<Rightarrow> bool" where
  "is_log (Log l m) = True"
| "is_log ev = False"

definition plain_encoder :: "encoder \<Rightarrow> bool" where
  "plain_encoder enc \<longleftrightarrow>
     (\<forall>a b c d e. filter is_call (fst (enc a b c d e)) = [] \<and>
                  filter is_log (fst (enc a b c d e)) = [])"

definition job_call ::
  "world \<Rightarrow> config \<Rightarrow> string \<Rightarrow> string \<Rightarrow> path \<Rightarrow> path \<Rightarrow> event list" where
  "job_call w cfg timestamp selected_format output_dir file_path =
     (case job_output_path w cfg timestamp selected_format output_dir file_path of
        Inl e \<Rightarrow> []
      | Inr out \<Rightarrow> [CallEncode (str_path w file_path) (str_path w out) selected_format])"

definition job_log ::
  "(nat \<Rightarrow> encoder) \<Rightarrow> config \<Rightarrow> world \<Rightarrow> string \<Rightarrow> string \<Rightarrow> path \<Rightarrow> path \<Rightarrow> nat \<Rightarrow>
     nat \<times> path \<Rightarrow> event list" where
  "job_log encs cfg w timestamp selected_format output_dir vpy_script_path total_files job =
     (case job_output_path w cfg timestamp selected_format output_dir (snd job) of
        Inl e \<Rightarrow> []
      | Inr out \<Rightarrow>
          [Log INFO (''--- Processing file '' @ str_nat (fst job + 1) @ ''/'' @
                     str_nat total_files @ '' ---''),
           Log INFO (''Processing file: '' @ str_path w (snd job)),
           outcome_log w
             (snd (encs (fst job) (str_path w (snd job)) (str_path w out) selected_format
                     (str_path w vpy_script_path) (job_env cfg w (snd job) selected_format)))
             (snd job) out])"

text \<open>
  A world in which creating the first job's subdirectory fails, and one in which the encoder
  of the second job exits with a non-zero status.
\<close>

definition full_disk_world :: world where
  "full_disk_world =
     \<lparr>windows = False,
      str_lower = ascii_lower,
      str_upper = ascii_upper,
      now = ''2024-01-01_00-00-00'',
      script_dir = [''app''],
      os_environ = [],
      tool_run = (\<lambda>cmd. None),
      mkdir_raises =
        (\<lambda>p. if p = [''G:'', ''YOUTUBE_CHANNEL_MEDIA'', ''DitheryDoo'', ''vapourized'',
                       ''2024-01-01_00-00-00'', ''a'']
             then Some (OSError ''[Errno 28] No space left on device'') else None),
      is_file = (\<lambda>p. path_name p \<noteq> ''a'' \<and> path_name p \<noteq> ''b''),
      dir_entries = [[''a''], [''a'', ''x.mkv''], [''b''], [''b'', ''y.mkv'']],
      procs = (\<lambda>i. proc_success)\<rparr>"

definition one_failure_world :: world where
  "one_failure_world =
     sample_world\<lparr>procs := (\<lambda>i. if i = 1 then proc_nonzero_exit else proc_success)\<rparr>"

section \<open>The command builder\<close>

lemma ffmpeg_cmd_present:
  "codec p = Some c \<Longrightarrow> pix_fmt p = Some pf \<Longrightarrow>
   ffmpeg_cmd p inp outp =
     Inr (''ffmpeg'' # spec_encoder_args c pf (profile p) (level p)
            (case extra_args p of Some xs \<Rightarrow> xs | None \<Rightarrow> []) inp outp)"
  by (simp add: ffmpeg_cmd_def getitem_def spec_encoder_args_def Let_def split: option.splits)

lemma catalog_cases:
  "(name, p) \<in> set ENCODING_PROFILES \<Longrightarrow>
   (name = ''prores_422_hq_10bit'' \<and> p = \<lparr>codec = Some ''prores_ks'', profile = Some ''3'', level = None,
         pix_fmt = Some ''yuv422p10le'', extra_args = Some [''-vendor'', ''apl0'']\<rparr>) \<or>
   (name = ''prores_444_16bit'' \<and> p = \<lparr>codec = Some ''prores_ks'', profile = Some ''4'', level = None,
         pix_fmt = Some ''yuv444p16le'', extra_args = Some [''-vendor'', ''apl0'']\<rparr>) \<or>
   (name = ''ffv1_10bit_422'' \<and> p = \<lparr>codec = Some ''ffv1'', profile = None, level = Some ''3'',
         pix_fmt = Some ''yuv422p10le'',
         extra_args = Some [''-coder'', ''1'', ''-context'', ''1'', ''-g'', ''1'']\<rparr>) \<or>
   (name = ''ffv1_12bit_444'' \<and> p = \<lparr>codec = Some ''ffv1'', profile = None, level = Some ''3'',
         pix_fmt = Some ''yuv444p12le'',
         extra_args = Some [''-coder'', ''1'', ''-context'', ''1'', ''-g'', ''1'']\<rparr>)"
  unfolding ENCODING_PROFILES_def by simp

lemma catalog_fields:
  "(name, p) \<in> set ENCODING_PROFILES \<Longrightarrow>
   \<exists>c pf extra. codec p = Some c \<and> pix_fmt p = Some pf \<and> extra_args p = Some extra"
  by (drule catalog_cases) auto

text \<open>
  Claim C1. For every profile of the catalog and all input and output paths, the encoder
  command is the program name followed by the arguments in the order of section 4.2 of the
  specification: the pipe as first input, the original file as second input, the video map,
  the optional audio and subtitle maps, the codec, the pixel format, the profile-index flag
  if the profile has one, the level flag if it has one, the extra arguments unchanged, the
  two stream copies, the overwrite flag and the destination last.
\<close>

theorem C1_encoder_argument_order:
  assumes "(name, p) \<in> set ENCODING_PROFILES"
  shows "\<exists>c pf extra. codec p = Some c \<and> pix_fmt p = Some pf \<and> extra_args p = Some extra \<and>
           ffmpeg_cmd p inp outp =
             Inr (''ffmpeg'' # spec_encoder_args c pf (profile p) (level p) extra inp outp)"
proof -
  from catalog_fields [OF assms] obtain c pf extra
    where f: "codec p = Some c" "pix_fmt p = Some pf" "extra_args p = Some extra"
    by blast
  from ffmpeg_cmd_present [OF f(1) f(2), of inp outp] f show ?thesis by simp
qed

theorem C1_encoder_argument_order_witness:
  "(''ffv1_10bit_422'',
      \<lparr>codec = Some ''ffv1'', profile = None, level = Some ''3'', pix_fmt = Some ''yuv422p10le'',
       extra_args = Some [''-coder'', ''1'', ''-context'', ''1'', ''-g'', ''1'']\<rparr>)
     \<in> set ENCODING_PROFILES \<and>
   ffmpeg_cmd
     \<lparr>codec = Some ''ffv1'', profile = None, level = Some ''3'', pix_fmt = Some ''yuv422p10le'',
      extra_args = Some [''-coder'', ''1'', ''-context'', ''1'', ''-g'', ''1'']\<rparr>
     ''in/clip.mov'' ''out/clip.mkv'' =
   Inr [''ffmpeg'', ''-i'', ''pipe:0'', ''-i'', ''in/clip.mov'', ''-map'', ''0:v'',
        ''-map'', ''1:a?'', ''-map'', ''1:s?'', ''-c:v'', ''ffv1'', ''-pix_fmt'', ''yuv422p10le'',
        ''-level:v'', ''3'', ''-coder'', ''1'', ''-context'', ''1'', ''-g'', ''1'',
        ''-c:a'', ''copy'', ''-c:s'', ''copy'', ''-y'', ''out/clip.mkv'']"
proof -
  have m: "(''ffv1_10bit_422'',
      \<lparr>codec = Some ''ffv1'', profile = None, level = Some ''3'', pix_fmt = Some ''yuv422p10le'',
       extra_args = Some [''-coder'', ''1'', ''-context'', ''1'', ''-g'', ''1'']\<rparr>)
     \<in> set ENCODING_PROFILES"
    by (simp add: ENCODING_PROFILES_def)
  from C1_encoder_argument_order [OF m, of "''in/clip.mov''" "''out/clip.mkv''"] m
  show ?thesis by (simp add: spec_encoder_args_def)
qed

text \<open>
  Claim C9. For a format name that the catalog does not hold, \<^const>\<open>encode_video\<close> returns
  \<^verbatim>\<open>False\<close>: it raises nothing, calls \<^verbatim>\<open>Popen\<close> for neither process, and does nothing
  but print one line to standard error.
\<close>

theorem C9_unknown_format:
  assumes "map_of ENCODING_PROFILES format_name = None"
  shows "encode_video input_path output_path format_name vpy_script process_env w =
           ([PrintErr (''Error: Encoding profile for '' @ quote @ format_name @ quote @
                       '' not found.'')],
            Inr False)"
  using assms by (simp add: encode_video_def)

theorem C9_unknown_format_witness:
  "map_of ENCODING_PROFILES ''h264'' = None \<and>
   encode_video ''in.mkv'' ''out.mov'' ''h264'' ''process.vpy'' [] proc_success =
     ([PrintErr (''Error: Encoding profile for '' @ quote @ ''h264'' @ quote @ '' not found.'')],
      Inr False)"
proof -
  have m: "map_of ENCODING_PROFILES ''h264'' = None"
    by (simp add: ENCODING_PROFILES_def)
  from C9_unknown_format [OF m, of "''in.mkv''" "''out.mov''" "''process.vpy''" "[]" proc_success] m
  show ?thesis by simp
qed

lemma catalog_counts:
  assumes "(name, p) \<in> set ENCODING_PROFILES"
  shows "count_list (codec_options p) ''-profile:v'' = (if profile p = None then 0 else 1) \<and>
         count_list (codec_options p) ''-level:v'' = (if profile p = None then 1 else 0)"
proof -
  from catalog_cases [OF assms] consider
      (a) "p = \<lparr>codec = Some ''prores_ks'', profile = Some ''3'', level = None,
         pix_fmt = Some ''yuv422p10le'', extra_args = Some [''-vendor'', ''apl0'']\<rparr>"
    | (b) "p = \<lparr>codec = Some ''prores_ks'', profile = Some ''4'', level = None,
         pix_fmt = Some ''yuv444p16le'', extra_args = Some [''-vendor'', ''apl0'']\<rparr>"
    | (c) "p = \<lparr>codec = Some ''ffv1'', profile = None, level = Some ''3'',
         pix_fmt = Some ''yuv422p10le'',
         extra_args = Some [''-coder'', ''1'', ''-context'', ''1'', ''-g'', ''1'']\<rparr>"
    | (d) "p = \<lparr>codec = Some ''ffv1'', profile = None, level = Some ''3'',
         pix_fmt = Some ''yuv444p12le'',
         extra_args = Some [''-coder'', ''1'', ''-context'', ''1'', ''-g'', ''1'']\<rparr>"
    by (elim disjE conjE) simp_all
  then show ?thesis
  proof cases
    case a then show ?thesis by (simp add: codec_options_def)
  next
    case b then show ?thesis by (simp add: codec_options_def)
  next
    case c then show ?thesis by (simp add: codec_options_def)
  next
    case d then show ?thesis by (simp add: codec_options_def)
  qed
qed


lemma ffmpeg_cmd_codec_options:
  assumes "codec p = Some c" and "pix_fmt p = Some pf"
  shows "ffmpeg_cmd p inp outp =
           Inr ([''ffmpeg'', ''-i'', ''pipe:0'', ''-i'', inp] @ codec_options p @ [outp])"
  using assms
  by (simp add: ffmpeg_cmd_def getitem_def codec_options_def Let_def split: option.splits)

lemma catalog_level_when_no_profile:
  assumes "(name, p) \<in> set ENCODING_PROFILES" and "profile p = None"
  shows "\<exists>v. level p = Some v"
  using catalog_cases [OF assms(1)] assms(2) by (elim disjE conjE) simp_all

text \<open>
  Claim C5. For every entry of the catalog the encoder command is the program name and the
  two inputs, then options, then the destination, and among the options the flags
  \<^verbatim>\<open>-profile:v\<close> and \<^verbatim>\<open>-level:v\<close> together occur exactly once. For an entry without a
  profile index \<^verbatim>\<open>-profile:v\<close> does not occur at all and nothing takes its place: the pixel
  format is directly followed by the level flag.
\<close>

theorem C5_exactly_one_codec_flag:
  assumes "(name, p) \<in> set ENCODING_PROFILES"
  shows "\<exists>opts. ffmpeg_cmd p inp outp =
                  Inr ([''ffmpeg'', ''-i'', ''pipe:0'', ''-i'', inp] @ opts @ [outp]) \<and>
           count_list opts ''-profile:v'' + count_list opts ''-level:v'' = 1 \<and>
           (profile p = None \<longrightarrow>
              ''-profile:v'' \<notin> set opts \<and>
              (\<exists>pf v pre rest. pix_fmt p = Some pf \<and> level p = Some v \<and>
                 opts = pre @ [''-pix_fmt'', pf, ''-level:v'', v] @ rest))"
proof -
  from catalog_fields [OF assms] obtain c pf extra
    where f: "codec p = Some c" "pix_fmt p = Some pf" "extra_args p = Some extra"
    by blast
  have cmd: "ffmpeg_cmd p inp outp =
               Inr ([''ffmpeg'', ''-i'', ''pipe:0'', ''-i'', inp] @ codec_options p @ [outp])"
    by (rule ffmpeg_cmd_codec_options [OF f(1) f(2)])
  have one: "count_list (codec_options p) ''-profile:v'' +
             count_list (codec_options p) ''-level:v'' = 1"
    using catalog_counts [OF assms] by simp
  have none: "profile p = None \<longrightarrow>
                ''-profile:v'' \<notin> set (codec_options p) \<and>
                (\<exists>pf v pre rest. pix_fmt p = Some pf \<and> level p = Some v \<and>
                   codec_options p = pre @ [''-pix_fmt'', pf, ''-level:v'', v] @ rest)"
  proof
    assume n: "profile p = None"
    from catalog_level_when_no_profile [OF assms n] obtain v where l: "level p = Some v" ..
    have "count_list (codec_options p) ''-profile:v'' = 0"
      using catalog_counts [OF assms] n by simp
    then have absent: "''-profile:v'' \<notin> set (codec_options p)"
      by (simp add: count_list_0_iff)
    have shape: "codec_options p =
                   [''-map'', ''0:v'', ''-map'', ''1:a?'', ''-map'', ''1:s?'', ''-c:v'', c] @
                   [''-pix_fmt'', pf, ''-level:v'', v] @
                   (extra @ [''-c:a'', ''copy'', ''-c:s'', ''copy'', ''-y''])"
      using n l f by (simp add: codec_options_def)
    show "''-profile:v'' \<notin> set (codec_options p) \<and>
          (\<exists>pf v pre rest. pix_fmt p = Some pf \<and> level p = Some v \<and>
             codec_options p = pre @ [''-pix_fmt'', pf, ''-level:v'', v] @ rest)"
    proof (intro conjI exI)
      show "''-profile:v'' \<notin> set (codec_options p)" by (rule absent)
      show "pix_fmt p = Some pf" by (rule f(2))
      show "level p = Some v" by (rule l)
      show "codec_options p =
              [''-map'', ''0:v'', ''-map'', ''1:a?'', ''-map'', ''1:s?'', ''-c:v'', c] @
              [''-pix_fmt'', pf, ''-level:v'', v] @
              (extra @ [''-c:a'', ''copy'', ''-c:s'', ''copy'', ''-y''])"
        by (rule shape)
    qed
  qed
  show ?thesis
  proof (intro exI conjI)
    show "ffmpeg_cmd p inp outp =
            Inr ([''ffmpeg'', ''-i'', ''pipe:0'', ''-i'', inp] @ codec_options p @ [outp])"
      by (rule cmd)
    show "count_list (codec_options p) ''-profile:v'' +
          count_list (codec_options p) ''-level:v'' = 1"
      by (rule one)
    show "profile p = None \<longrightarrow>
            ''-profile:v'' \<notin> set (codec_options p) \<and>
            (\<exists>pf v pre rest. pix_fmt p = Some pf \<and> level p = Some v \<and>
               codec_options p = pre @ [''-pix_fmt'', pf, ''-level:v'', v] @ rest)"
      by (rule none)
  qed
qed

theorem C5_exactly_one_codec_flag_witness:
  "(''ffv1_12bit_444'',
      \<lparr>codec = Some ''ffv1'', profile = None, level = Some ''3'', pix_fmt = Some ''yuv444p12le'',
       extra_args = Some [''-coder'', ''1'', ''-context'', ''1'', ''-g'', ''1'']\<rparr>)
     \<in> set ENCODING_PROFILES \<and>
   (\<exists>opts. ffmpeg_cmd
       \<lparr>codec = Some ''ffv1'', profile = None, level = Some ''3'', pix_fmt = Some ''yuv444p12le'',
        extra_args = Some [''-coder'', ''1'', ''-context'', ''1'', ''-g'', ''1'']\<rparr>
       ''a.mp4'' ''b.mkv'' =
         Inr ([''ffmpeg'', ''-i'', ''pipe:0'', ''-i'', ''a.mp4''] @ opts @ [''b.mkv'']) \<and>
      count_list opts ''-profile:v'' + count_list opts ''-level:v'' = 1 \<and>
      ''-profile:v'' \<notin> set opts)"
proof -
  have m: "(''ffv1_12bit_444'',
      \<lparr>codec = Some ''ffv1'', profile = None, level = Some ''3'', pix_fmt = Some ''yuv444p12le'',
       extra_args = Some [''-coder'', ''1'', ''-context'', ''1'', ''-g'', ''1'']\<rparr>)
     \<in> set ENCODING_PROFILES"
    by (simp add: ENCODING_PROFILES_def)
  let ?p = "\<lparr>codec = Some ''ffv1'', profile = None, level = Some ''3'',
              pix_fmt = Some ''yuv444p12le'',
              extra_args = Some [''-coder'', ''1'', ''-context'', ''1'', ''-g'', ''1'']\<rparr>"
  have n: "profile ?p = None" by simp
  from C5_exactly_one_codec_flag [OF m, of "''a.mp4''" "''b.mkv''"] obtain opts where
    o: "ffmpeg_cmd ?p ''a.mp4'' ''b.mkv'' =
          Inr ([''ffmpeg'', ''-i'', ''pipe:0'', ''-i'', ''a.mp4''] @ opts @ [''b.mkv''])"
       "count_list opts ''-profile:v'' + count_list opts ''-level:v'' = 1"
       "profile ?p = None \<longrightarrow> ''-profile:v'' \<notin> set opts \<and>
          (\<exists>pf v pre rest. pix_fmt ?p = Some pf \<and> level ?p = Some v \<and>
             opts = pre @ [''-pix_fmt'', pf, ''-level:v'', v] @ rest)"
    by (elim exE conjE)
  from o(3) n have a: "''-profile:v'' \<notin> set opts" by (elim impE conjE)
  show ?thesis
  proof (intro conjI exI)
    show "(''ffv1_12bit_444'', ?p) \<in> set ENCODING_PROFILES" by (rule m)
    show "ffmpeg_cmd ?p ''a.mp4'' ''b.mkv'' =
            Inr ([''ffmpeg'', ''-i'', ''pipe:0'', ''-i'', ''a.mp4''] @ opts @ [''b.mkv''])"
      by (rule o(1))
    show "count_list opts ''-profile:v'' + count_list opts ''-level:v'' = 1" by (rule o(2))
    show "''-profile:v'' \<notin> set opts" by (rule a)
  qed
qed

section \<open>The pipe orchestrator\<close>

lemma catalog_lookup:
  assumes "map_of ENCODING_PROFILES format_name = Some p"
  shows "\<exists>c pf. codec p = Some c \<and> pix_fmt p = Some pf"
proof -
  from assms have "(format_name, p) \<in> set ENCODING_PROFILES" by (rule map_of_SomeD)
  from catalog_fields [OF this] show ?thesis by blast
qed

lemma encode_video_found:
  assumes "map_of ENCODING_PROFILES format_name = Some p"
  shows "\<exists>fcmd. ffmpeg_cmd p input_path output_path = Inr fcmd \<and>
           encode_video input_path output_path format_name vpy_script process_env w =
             ([PrintOut (''VSPipe command: '' @ join '' '' (vspipe_cmd vpy_script)),
               PrintOut (''FFmpeg command: '' @ join '' '' fcmd)] @
              fst (run_pipeline (vspipe_cmd vpy_script) fcmd process_env w),
              Inr (snd (run_pipeline (vspipe_cmd vpy_script) fcmd process_env w)))"
proof -
  from catalog_lookup [OF assms] obtain c pf where f: "codec p = Some c" "pix_fmt p = Some pf"
    by blast
  from f(1) have ne: "\<not> is_empty_profile p" by (simp add: is_empty_profile_def)
  from ffmpeg_cmd_codec_options [OF f, of input_path output_path]
  obtain fcmd where c: "ffmpeg_cmd p input_path output_path = Inr fcmd" by blast
  show ?thesis
    using assms ne c by (simp add: encode_video_def Let_def split: prod.splits)
qed

lemma run_pipeline_launched:
  assumes "vspipe_spawn w = None" and "ffmpeg_spawn w = None"
  shows "snd (run_pipeline vcmd fcmd env w) = (ffmpeg_returncode w = 0)"
  using assms by (simp add: run_pipeline_def split: sum.splits)

lemma run_pipeline_ignores_vspipe_returncode:
  "run_pipeline vcmd fcmd env (w\<lparr>vspipe_returncode := v\<rparr>) = run_pipeline vcmd fcmd env w"
  by (simp add: run_pipeline_def cong: option.case_cong sum.case_cong if_cong)

text \<open>
  Claim C2. When the format is in the catalog and both processes launch,
  \<^const>\<open>encode_video\<close> returns \<^verbatim>\<open>True\<close> exactly when the encoder's exit status is zero, and
  the exit status of the frame source changes neither the result nor anything else the call
  does.
\<close>

theorem C2_success_iff_encoder_exit_zero:
  assumes "map_of ENCODING_PROFILES format_name = Some p"
      and "vspipe_spawn w = None" and "ffmpeg_spawn w = None"
  shows "snd (encode_video input_path output_path format_name vpy_script process_env w) =
           Inr (ffmpeg_returncode w = 0) \<and>
         encode_video input_path output_path format_name vpy_script process_env
             (w\<lparr>vspipe_returncode := v\<rparr>) =
           encode_video input_path output_path format_name vpy_script process_env w"
proof -
  from encode_video_found [OF assms(1), of input_path output_path vpy_script process_env w]
  obtain fcmd where
    c: "ffmpeg_cmd p input_path output_path = Inr fcmd" and
    e: "encode_video input_path output_path format_name vpy_script process_env w =
          ([PrintOut (''VSPipe command: '' @ join '' '' (vspipe_cmd vpy_script)),
            PrintOut (''FFmpeg command: '' @ join '' '' fcmd)] @
           fst (run_pipeline (vspipe_cmd vpy_script) fcmd process_env w),
           Inr (snd (run_pipeline (vspipe_cmd vpy_script) fcmd process_env w)))"
    by blast
  from encode_video_found [OF assms(1), of input_path output_path vpy_script process_env
      "w\<lparr>vspipe_returncode := v\<rparr>"] c
  have e': "encode_video input_path output_path format_name vpy_script process_env
              (w\<lparr>vspipe_returncode := v\<rparr>) =
          ([PrintOut (''VSPipe command: '' @ join '' '' (vspipe_cmd vpy_script)),
            PrintOut (''FFmpeg command: '' @ join '' '' fcmd)] @
           fst (run_pipeline (vspipe_cmd vpy_script) fcmd process_env
                  (w\<lparr>vspipe_returncode := v\<rparr>)),
           Inr (snd (run_pipeline (vspipe_cmd vpy_script) fcmd process_env
                  (w\<lparr>vspipe_returncode := v\<rparr>))))"
    by auto
  have 1: "snd (encode_video input_path output_path format_name vpy_script process_env w) =
             Inr (ffmpeg_returncode w = 0)"
    by (simp only: e snd_conv run_pipeline_launched [OF assms(2) assms(3)])
  have 2: "encode_video input_path output_path format_name vpy_script process_env
             (w\<lparr>vspipe_returncode := v\<rparr>) =
           encode_video input_path output_path format_name vpy_script process_env w"
    by (simp only: e e' run_pipeline_ignores_vspipe_returncode)
  from 1 2 show ?thesis ..
qed

theorem C2_success_iff_encoder_exit_zero_witness:
  "map_of ENCODING_PROFILES ''prores_444_16bit'' =
     Some \<lparr>codec = Some ''prores_ks'', profile = Some ''4'', level = None,
           pix_fmt = Some ''yuv444p16le'', extra_args = Some [''-vendor'', ''apl0'']\<rparr> \<and>
   vspipe_spawn proc_nonzero_exit = None \<and>
   ffmpeg_spawn proc_nonzero_exit = None \<and>
   snd (encode_video ''in.mkv'' ''out.mov'' ''prores_444_16bit'' ''process.vpy'' []
          proc_nonzero_exit) = Inr False \<and>
   encode_video ''in.mkv'' ''out.mov'' ''prores_444_16bit'' ''process.vpy'' []
       (proc_nonzero_exit\<lparr>vspipe_returncode := 1\<rparr>) =
     encode_video ''in.mkv'' ''out.mov'' ''prores_444_16bit'' ''process.vpy'' []
       proc_nonzero_exit"
proof -
  have m: "map_of ENCODING_PROFILES ''prores_444_16bit'' =
     Some \<lparr>codec = Some ''prores_ks'', profile = Some ''4'', level = None,
           pix_fmt = Some ''yuv444p16le'', extra_args = Some [''-vendor'', ''apl0'']\<rparr>"
    by (simp add: ENCODING_PROFILES_def)
  have v: "vspipe_spawn proc_nonzero_exit = None"
    by (simp add: proc_nonzero_exit_def)
  have f: "ffmpeg_spawn proc_nonzero_exit = None"
    by (simp add: proc_nonzero_exit_def)
  have r: "(ffmpeg_returncode proc_nonzero_exit = 0) = False"
    by (simp add: proc_nonzero_exit_def)
  from C2_success_iff_encoder_exit_zero [OF m v f, of "''in.mkv''" "''out.mov''"
      "''process.vpy''" "[]" 1]
  show ?thesis
    unfolding r using m v f by (intro conjI) (elim conjE, assumption)+
qed

lemma decode_utf8_raises:
  "decode_utf8 bs = Inl e \<Longrightarrow> \<exists>m. e = UnicodeDecodeError m"
  by (auto simp: decode_utf8_def split: option.splits prod.splits)

lemma run_pipeline_nonzero_decoded:
  assumes "vspipe_spawn w = None" and "ffmpeg_spawn w = None" and "ffmpeg_returncode w \<noteq> 0"
      and "decode_utf8 (ffmpeg_stderr w) = Inr diag"
  shows "run_pipeline vcmd fcmd env w =
           ([Popen vcmd (Some env), Popen fcmd None] @
            [PrintErr ''Error during FFmpeg execution:'', PrintErr diag], False)"
  using assms by (simp add: run_pipeline_def)

lemma run_pipeline_nonzero_undecodable:
  assumes "vspipe_spawn w = None" and "ffmpeg_spawn w = None" and "ffmpeg_returncode w \<noteq> 0"
      and "decode_utf8 (ffmpeg_stderr w) = Inl e"
  shows "run_pipeline vcmd fcmd env w =
           ([Popen vcmd (Some env), Popen fcmd None] @
            [PrintErr ''Error during FFmpeg execution:'',
             PrintErr (''An unexpected error occurred: '' @ exn_str e)], False)"
proof -
  from decode_utf8_raises [OF assms(4)] obtain m where m: "e = UnicodeDecodeError m" ..
  show ?thesis
    using assms unfolding m by (simp add: run_pipeline_def handle_exn_def)
qed

lemma run_pipeline_success_quiet:
  assumes "snd (run_pipeline vcmd fcmd env w) = True"
  shows "PrintErr m \<notin> set (fst (run_pipeline vcmd fcmd env w))"
  using assms
  by (simp add: run_pipeline_def split: option.splits sum.splits if_splits)

lemma encode_video_unknown_returns_False:
  assumes "map_of ENCODING_PROFILES format_name = None"
  shows "snd (encode_video input_path output_path format_name vpy_script process_env w) =
           Inr False"
  using assms by (simp add: encode_video_def)

lemma encode_video_success_quiet:
  assumes "snd (encode_video input_path output_path format_name vpy_script process_env w) =
             Inr True"
  shows "PrintErr m \<notin>
           set (fst (encode_video input_path output_path format_name vpy_script process_env w))"
proof (cases "map_of ENCODING_PROFILES format_name")
  case None
  from encode_video_unknown_returns_False [OF None, of input_path output_path vpy_script
      process_env w] assms
  show ?thesis by simp
next
  case (Some p)
  from encode_video_found [OF Some, of input_path output_path vpy_script process_env w]
  obtain fcmd where
    e: "encode_video input_path output_path format_name vpy_script process_env w =
          ([PrintOut (''VSPipe command: '' @ join '' '' (vspipe_cmd vpy_script)),
            PrintOut (''FFmpeg command: '' @ join '' '' fcmd)] @
           fst (run_pipeline (vspipe_cmd vpy_script) fcmd process_env w),
           Inr (snd (run_pipeline (vspipe_cmd vpy_script) fcmd process_env w)))"
    by (elim exE conjE)
  from assms have ok: "snd (run_pipeline (vspipe_cmd vpy_script) fcmd process_env w) = True"
    unfolding e by simp
  from run_pipeline_success_quiet [OF ok, of m] show ?thesis
    unfolding e by simp
qed

text \<open>
  What the call writes to standard error when the encoder fails: if the captured standard
  error is well-formed UTF-8, the last line written is its decoded text; if it is not,
  decoding raises, the general handler catches the exception, and the last line written is
  the message of that exception. A call that returns \<^verbatim>\<open>True\<close> writes nothing to standard
  error.
\<close>

lemma encode_video_failure_diagnostics:
  assumes "map_of ENCODING_PROFILES format_name = Some p"
      and "vspipe_spawn w = None" and "ffmpeg_spawn w = None"
  shows "(ffmpeg_returncode w \<noteq> 0 \<and> decode_utf8 (ffmpeg_stderr w) = Inr diag \<longrightarrow>
            snd (encode_video input_path output_path format_name vpy_script process_env w) =
              Inr False \<and>
            (\<exists>pre. fst (encode_video input_path output_path format_name vpy_script
                          process_env w) =
                     pre @ [PrintErr ''Error during FFmpeg execution:'', PrintErr diag])) \<and>
         (ffmpeg_returncode w \<noteq> 0 \<and> decode_utf8 (ffmpeg_stderr w) = Inl e \<longrightarrow>
            snd (encode_video input_path output_path format_name vpy_script process_env w) =
              Inr False \<and>
            (\<exists>pre. fst (encode_video input_path output_path format_name vpy_script
                          process_env w) =
                     pre @ [PrintErr ''Error during FFmpeg execution:'',
                            PrintErr (''An unexpected error occurred: '' @ exn_str e)])) \<and>
         (snd (encode_video input_path output_path format_name vpy_script process_env w) =
            Inr True \<longrightarrow>
          (\<forall>m. PrintErr m \<notin>
                 set (fst (encode_video input_path output_path format_name vpy_script
                             process_env w))))"
proof -
  from encode_video_found [OF assms(1), of input_path output_path vpy_script process_env w]
  obtain fcmd where
    e: "encode_video input_path output_path format_name vpy_script process_env w =
          ([PrintOut (''VSPipe command: '' @ join '' '' (vspipe_cmd vpy_script)),
            PrintOut (''FFmpeg command: '' @ join '' '' fcmd)] @
           fst (run_pipeline (vspipe_cmd vpy_script) fcmd process_env w),
           Inr (snd (run_pipeline (vspipe_cmd vpy_script) fcmd process_env w)))"
    by (elim exE conjE)
  let ?head = "[PrintOut (''VSPipe command: '' @ join '' '' (vspipe_cmd vpy_script)),
                PrintOut (''FFmpeg command: '' @ join '' '' fcmd),
                Popen (vspipe_cmd vpy_script) (Some process_env), Popen fcmd None]"
  have decoded:
    "ffmpeg_returncode w \<noteq> 0 \<and> decode_utf8 (ffmpeg_stderr w) = Inr diag \<longrightarrow>
       snd (encode_video input_path output_path format_name vpy_script process_env w) =
         Inr False \<and>
       (\<exists>pre. fst (encode_video input_path output_path format_name vpy_script process_env w) =
                pre @ [PrintErr ''Error during FFmpeg execution:'', PrintErr diag])"
  proof
    assume h: "ffmpeg_returncode w \<noteq> 0 \<and> decode_utf8 (ffmpeg_stderr w) = Inr diag"
    then have rc: "ffmpeg_returncode w \<noteq> 0" and d: "decode_utf8 (ffmpeg_stderr w) = Inr diag"
      by simp_all
    note r = run_pipeline_nonzero_decoded [OF assms(2) assms(3) rc d,
        of "vspipe_cmd vpy_script" fcmd process_env]
    have s: "snd (encode_video input_path output_path format_name vpy_script process_env w) =
               Inr False"
      unfolding e r by simp
    have f: "fst (encode_video input_path output_path format_name vpy_script process_env w) =
               ?head @ [PrintErr ''Error during FFmpeg execution:'', PrintErr diag]"
      unfolding e r by simp
    from s f show "snd (encode_video input_path output_path format_name vpy_script
                          process_env w) = Inr False \<and>
       (\<exists>pre. fst (encode_video input_path output_path format_name vpy_script process_env w) =
                pre @ [PrintErr ''Error during FFmpeg execution:'', PrintErr diag])"
      by (intro conjI exI)
  qed
  have undecodable:
    "ffmpeg_returncode w \<noteq> 0 \<and> decode_utf8 (ffmpeg_stderr w) = Inl e \<longrightarrow>
       snd (encode_video input_path output_path format_name vpy_script process_env w) =
         Inr False \<and>
       (\<exists>pre. fst (encode_video input_path output_path format_name vpy_script process_env w) =
                pre @ [PrintErr ''Error during FFmpeg execution:'',
                       PrintErr (''An unexpected error occurred: '' @ exn_str e)])"
  proof
    assume h: "ffmpeg_returncode w \<noteq> 0 \<and> decode_utf8 (ffmpeg_stderr w) = Inl e"
    then have rc: "ffmpeg_returncode w \<noteq> 0" and d: "decode_utf8 (ffmpeg_stderr w) = Inl e"
      by simp_all
    note r = run_pipeline_nonzero_undecodable [OF assms(2) assms(3) rc d,
        of "vspipe_cmd vpy_script" fcmd process_env]
    have s: "snd (encode_video input_path output_path format_name vpy_script process_env w) =
               Inr False"
      unfolding e r by simp
    have f: "fst (encode_video input_path output_path format_name vpy_script process_env w) =
               ?head @ [PrintErr ''Error during FFmpeg execution:'',
                        PrintErr (''An unexpected error occurred: '' @ exn_str e)]"
      unfolding e r by simp
    from s f show "snd (encode_video input_path output_path format_name vpy_script
                          process_env w) = Inr False \<and>
       (\<exists>pre. fst (encode_video input_path output_path format_name vpy_script process_env w) =
                pre @ [PrintErr ''Error during FFmpeg execution:'',
                       PrintErr (''An unexpected error occurred: '' @ exn_str e)])"
      by (intro conjI exI)
  qed
  have quiet:
    "snd (encode_video input_path output_path format_name vpy_script process_env w) =
       Inr True \<longrightarrow>
     (\<forall>m. PrintErr m \<notin>
            set (fst (encode_video input_path output_path format_name vpy_script
                        process_env w)))"
    using encode_video_success_quiet by (intro impI allI)
  from decoded undecodable quiet show ?thesis by (intro conjI)
qed

text \<open>
  Claim C3 says that a run in which the encoder exits with a non-zero status fails with the
  encoder's captured standard error, decoded to text, as its diagnostic. The code means to
  do so: line 111 prints the decoded output. But it decodes strictly and inside the
  \<^verbatim>\<open>try\<close> block, so for the standard error \<open>0xFF\<close>, which is not UTF-8, decoding raises,
  the general handler takes over, and the diagnostic written is the decoder's message; the
  encoder's output is lost. The call still returns \<^verbatim>\<open>False\<close>.
\<close>

theorem C3_undecodable_stderr_evaluation:
  "vspipe_spawn proc_bad_stderr = None \<and>
   ffmpeg_spawn proc_bad_stderr = None \<and>
   ffmpeg_returncode proc_bad_stderr = 1 \<and>
   ffmpeg_stderr proc_bad_stderr = [CHR 0xFF] \<and>
   decode_utf8 [CHR 0xFF] =
     Inl (UnicodeDecodeError
           (quote @ ''utf-8'' @ quote @ '' codec can'' @ quote @
            ''t decode byte 0xff in position 0: invalid start byte'')) \<and>
   encode_video ''in.mov'' ''out.mkv'' ''ffv1_10bit_422'' ''process.vpy'' [] proc_bad_stderr =
     ([PrintOut ''VSPipe command: vspipe -c y4m process.vpy -'',
      PrintOut
        (''FFmpeg command: ffmpeg -i pipe:0 -i in.mov -map 0:v -map 1:a? -map 1:s? '' @
         ''-c:v ffv1 -pix_fmt yuv422p10le -level:v 3 -coder 1 -context 1 -g 1 '' @
         ''-c:a copy -c:s copy -y out.mkv''),
      Popen [''vspipe'', ''-c'', ''y4m'', ''process.vpy'', ''-''] (Some []),
      Popen
        [''ffmpeg'', ''-i'', ''pipe:0'', ''-i'', ''in.mov'', ''-map'', ''0:v'', ''-map'',
        ''1:a?'', ''-map'', ''1:s?'', ''-c:v'', ''ffv1'', ''-pix_fmt'', ''yuv422p10le'',
        ''-level:v'', ''3'', ''-coder'', ''1'', ''-context'', ''1'', ''-g'', ''1'', ''-c:a'',
        ''copy'', ''-c:s'', ''copy'', ''-y'', ''out.mkv'']
        None,
      PrintErr ''Error during FFmpeg execution:'',
      PrintErr
        (''An unexpected error occurred: '' @ quote @ ''utf-8'' @ quote @ '' codec can'' @
         quote @ ''t decode byte 0xff in position 0: invalid start byte'')],
      Inr False)"
proof -
  have d: "decode_utf8 [CHR 0xFF] =
     Inl (UnicodeDecodeError
           (quote @ ''utf-8'' @ quote @ '' codec can'' @ quote @
            ''t decode byte 0xff in position 0: invalid start byte''))"
    by (simp add: decode_utf8_def utf8_head_def decode_error_message_def hex2_def
          invalid_start_byte_def str_nat.simps)
  show ?thesis
    unfolding d
    by (simp add: proc_bad_stderr_def d encode_video_def
        ENCODING_PROFILES_def is_empty_profile_def ffmpeg_cmd_def getitem_def vspipe_cmd_def
        run_pipeline_def handle_exn_def Let_def)
qed

section \<open>The job planner: output paths\<close>

lemmas ascii_case_defs =
  ascii_lower_def ascii_lower_char_def ascii_upper_def ascii_upper_char_def
  ascii_uppercase_def ascii_lowercase_def

lemma selected_format_cases:
  assumes "get_selected_format cfg = Some selected_format"
  shows "selected_format = ''prores_422_hq_10bit'' \<or> selected_format = ''prores_444_16bit'' \<or>
         selected_format = ''ffv1_10bit_422'' \<or> selected_format = ''ffv1_12bit_444''"
  using assms
  by (cases "enable_prores_422_hq_10bit cfg"; cases "enable_prores_444_16bit cfg";
      cases "enable_ffv1_10bit_422 cfg"; cases "enable_ffv1_12bit_444 cfg")
     (simp_all add: get_selected_format_def)

lemma file_ext_prores_422: "file_ext ''prores_422_hq_10bit'' = Inr ''mov''"
  by (simp add: file_ext_def getitem_def ENCODING_PROFILES_def)

lemma file_ext_prores_444: "file_ext ''prores_444_16bit'' = Inr ''mov''"
  by (simp add: file_ext_def getitem_def ENCODING_PROFILES_def)

lemma file_ext_ffv1_422: "file_ext ''ffv1_10bit_422'' = Inr ''mkv''"
  by (simp add: file_ext_def getitem_def ENCODING_PROFILES_def)

lemma file_ext_ffv1_444: "file_ext ''ffv1_12bit_444'' = Inr ''mkv''"
  by (simp add: file_ext_def getitem_def ENCODING_PROFILES_def)

lemma file_ext_selected:
  assumes "get_selected_format cfg = Some selected_format"
  shows "file_ext selected_format =
           Inr (if selected_format = ''prores_422_hq_10bit'' \<or>
                   selected_format = ''prores_444_16bit'' then ''mov'' else ''mkv'')"
  using selected_format_cases [OF assms]
  by (elim disjE)
     (simp_all add: file_ext_prores_422 file_ext_prores_444 file_ext_ffv1_422 file_ext_ffv1_444)

text \<open>
  Claim C8. For the selected format and any input file, the output file name is the input's
  stem, the run timestamp and the format name joined by underscores, with the extension
  \<^verbatim>\<open>mov\<close> for the two ProRes formats and \<^verbatim>\<open>mkv\<close> for the two FFV1 formats.
\<close>

theorem C8_output_filename:
  assumes "get_selected_format cfg = Some selected_format"
  shows "output_filename file_path timestamp selected_format =
           Inr (stem file_path @ ''_'' @ timestamp @ ''_'' @ selected_format @ ''.'' @
                (if selected_format = ''prores_422_hq_10bit'' \<or>
                    selected_format = ''prores_444_16bit'' then ''mov'' else ''mkv''))"
  by (simp only: output_filename_def file_ext_selected [OF assms] sum.case)

theorem C8_output_filename_witness:
  "get_selected_format shipped_config = Some ''prores_422_hq_10bit'' \<and>
   output_filename (input_file shipped_config) ''2024-01-01_00-00-00'' ''prores_422_hq_10bit'' =
     Inr ''FULL MOON VIDEO HD_2024-01-01_00-00-00_prores_422_hq_10bit.mov''"
proof -
  have s: "get_selected_format shipped_config = Some ''prores_422_hq_10bit''"
    by (simp add: get_selected_format_def shipped_config_def)
  have st: "stem (input_file shipped_config) = ''FULL MOON VIDEO HD''"
    by (simp add: stem_def stem_of_def path_name_def shipped_config_def)
  from C8_output_filename [OF s, of "input_file shipped_config" "''2024-01-01_00-00-00''"] s
  show ?thesis by (simp add: st)
qed

lemma relative_to_append: "relative_to w (base @ rel) base = Inr rel"
  by (simp add: relative_to_def same_path_def)

lemma parent_snoc: "parent (p @ [n]) = p"
  by (simp add: parent_def)

lemma parent_append: "rel \<noteq> [] \<Longrightarrow> parent (base @ rel) = base @ parent rel"
  by (simp add: parent_def butlast_append)

lemma stem_append: "rel \<noteq> [] \<Longrightarrow> stem (base @ rel) = stem rel"
  by (simp add: stem_def path_name_def)

lemma find_video_files_member:
  assumes "f \<in> set (find_video_files w directory recursive)"
  shows "\<exists>rel. rel \<noteq> [] \<and> f = directory @ rel \<and> rel \<in> set (dir_entries w) \<and>
           (recursive \<or> length rel = 1) \<and> is_file w f \<and>
           str_lower w (suffix f) \<in> set supported_extensions"
  using assms by (auto simp: find_video_files_def glob_def)

lemma job_output_path_batch:
  assumes "get_selected_format cfg = Some selected_format"
      and "batch_process_directory cfg"
  shows "job_output_path w cfg timestamp selected_format output_dir (input_directory cfg @ rel) =
           Inr (output_dir @ parent rel @
                [stem (input_directory cfg @ rel) @ ''_'' @ timestamp @ ''_'' @
                 selected_format @ ''.'' @
                 (if selected_format = ''prores_422_hq_10bit'' \<or>
                     selected_format = ''prores_444_16bit'' then ''mov'' else ''mkv'')])"
  by (simp only: job_output_path_def output_file_dir_def assms(2) if_True relative_to_append
        sum.case output_filename_def file_ext_selected [OF assms(1)] append_assoc)

lemma job_output_path_single:
  assumes "get_selected_format cfg = Some selected_format"
      and "\<not> batch_process_directory cfg"
  shows "job_output_path w cfg timestamp selected_format output_dir file_path =
           Inr (output_dir @
                [stem file_path @ ''_'' @ timestamp @ ''_'' @ selected_format @ ''.'' @
                 (if selected_format = ''prores_422_hq_10bit'' \<or>
                     selected_format = ''prores_444_16bit'' then ''mov'' else ''mkv'')])"
  by (simp only: job_output_path_def output_file_dir_def assms(2) if_False
        sum.case output_filename_def file_ext_selected [OF assms(1)])

text \<open>
  Claim C10. In directory mode, the output file of a discovered input lies under the run's
  timestamped directory in the same subdirectory that the input has below the input
  directory; in single-file mode it lies directly in the timestamped directory.
\<close>

theorem C10_output_directory_mirrors_input:
  assumes "get_selected_format cfg = Some selected_format"
  shows "(batch_process_directory cfg \<and>
          file_path \<in> set (find_video_files w (input_directory cfg)
                              (process_subdirectories cfg)) \<longrightarrow>
            (\<exists>d out. parent file_path = input_directory cfg @ d \<and>
               job_output_path w cfg (now w) selected_format
                 (output_base_directory cfg @ [now w]) file_path = Inr out \<and>
               parent out = output_base_directory cfg @ [now w] @ d)) \<and>
         (\<not> batch_process_directory cfg \<longrightarrow>
            (\<exists>out. job_output_path w cfg (now w) selected_format
                      (output_base_directory cfg @ [now w]) file_path = Inr out \<and>
               parent out = output_base_directory cfg @ [now w]))"
proof (intro conjI impI)
  assume h: "batch_process_directory cfg \<and>
             file_path \<in> set (find_video_files w (input_directory cfg)
                                 (process_subdirectories cfg))"
  then have b: "batch_process_directory cfg"
    and m: "file_path \<in> set (find_video_files w (input_directory cfg)
                                (process_subdirectories cfg))"
    by simp_all
  from find_video_files_member [OF m] obtain rel
    where rel: "rel \<noteq> []" "file_path = input_directory cfg @ rel"
    by (elim exE conjE)
  have p: "parent file_path = input_directory cfg @ parent rel"
    unfolding rel(2) by (rule parent_append [OF rel(1)])
  note out = job_output_path_batch [OF assms b, where w = w and timestamp = "now w"
      and output_dir = "output_base_directory cfg @ [now w]" and rel = rel, folded rel(2)]
  have q: "parent ((output_base_directory cfg @ [now w]) @ parent rel @
             [stem file_path @ ''_'' @ now w @ ''_'' @ selected_format @ ''.'' @
              (if selected_format = ''prores_422_hq_10bit'' \<or>
                  selected_format = ''prores_444_16bit'' then ''mov'' else ''mkv'')]) =
           output_base_directory cfg @ [now w] @ parent rel"
    using parent_snoc [of "(output_base_directory cfg @ [now w]) @ parent rel"] by simp
  from p out q
  show "\<exists>d out. parent file_path = input_directory cfg @ d \<and>
          job_output_path w cfg (now w) selected_format
            (output_base_directory cfg @ [now w]) file_path = Inr out \<and>
          parent out = output_base_directory cfg @ [now w] @ d"
    by (intro exI conjI)
next
  assume s: "\<not> batch_process_directory cfg"
  note out = job_output_path_single [OF assms s, where w = w and timestamp = "now w"
      and output_dir = "output_base_directory cfg @ [now w]" and file_path = file_path]
  have q: "parent ((output_base_directory cfg @ [now w]) @
             [stem file_path @ ''_'' @ now w @ ''_'' @ selected_format @ ''.'' @
              (if selected_format = ''prores_422_hq_10bit'' \<or>
                  selected_format = ''prores_444_16bit'' then ''mov'' else ''mkv'')]) =
           output_base_directory cfg @ [now w]"
    by (rule parent_snoc)
  from out q
  show "\<exists>out. job_output_path w cfg (now w) selected_format
                 (output_base_directory cfg @ [now w]) file_path = Inr out \<and>
          parent out = output_base_directory cfg @ [now w]"
    by (intro exI conjI)
qed

lemma sample_found:
  "find_video_files sample_world (input_directory batch_config)
     (process_subdirectories batch_config) =
   [input_directory batch_config @ [''clip.mov''],
    input_directory batch_config @ [''clip.mkv''],
    input_directory batch_config @ [''a'', ''x.mkv'']]"
  by (simp add: find_video_files_def glob_def sample_world_def batch_config_def
        shipped_config_def suffix_def suffix_of_def path_name_def ascii_case_defs
        supported_extensions_def)

lemma batch_config_selected: "get_selected_format batch_config = Some ''ffv1_10bit_422''"
  by (simp add: get_selected_format_def batch_config_def shipped_config_def)

lemma batch_config_batch: "batch_process_directory batch_config"
  by (simp add: batch_config_def)

theorem C10_output_directory_mirrors_input_witness:
  "get_selected_format batch_config = Some ''ffv1_10bit_422'' \<and>
   batch_process_directory batch_config \<and>
   input_directory batch_config @ [''a'', ''x.mkv'']
     \<in> set (find_video_files sample_world (input_directory batch_config)
              (process_subdirectories batch_config)) \<and>
   (\<exists>d out. parent (input_directory batch_config @ [''a'', ''x.mkv'']) =
               input_directory batch_config @ d \<and>
      job_output_path sample_world batch_config (now sample_world) ''ffv1_10bit_422''
        (output_base_directory batch_config @ [now sample_world])
        (input_directory batch_config @ [''a'', ''x.mkv'']) = Inr out \<and>
      parent out = output_base_directory batch_config @ [now sample_world] @ d) \<and>
   job_output_path sample_world batch_config (now sample_world) ''ffv1_10bit_422''
     (output_base_directory batch_config @ [now sample_world])
     (input_directory batch_config @ [''a'', ''x.mkv'']) =
   Inr [''G:'', ''YOUTUBE_CHANNEL_MEDIA'', ''DitheryDoo'', ''vapourized'',
        ''2024-01-01_00-00-00'', ''a'', ''x_2024-01-01_00-00-00_ffv1_10bit_422.mkv'']"
proof -
  have m: "input_directory batch_config @ [''a'', ''x.mkv'']
             \<in> set (find_video_files sample_world (input_directory batch_config)
                      (process_subdirectories batch_config))"
    unfolding sample_found by simp
  note t = C10_output_directory_mirrors_input [OF batch_config_selected,
      where w = sample_world and file_path = "input_directory batch_config @ [''a'', ''x.mkv'']"]
  have e: "\<exists>d out. parent (input_directory batch_config @ [''a'', ''x.mkv'']) =
               input_directory batch_config @ d \<and>
      job_output_path sample_world batch_config (now sample_world) ''ffv1_10bit_422''
        (output_base_directory batch_config @ [now sample_world])
        (input_directory batch_config @ [''a'', ''x.mkv'']) = Inr out \<and>
      parent out = output_base_directory batch_config @ [now sample_world] @ d"
    by (rule mp [OF conjunct1 [OF t]]) (intro conjI batch_config_batch m)
  have v: "job_output_path sample_world batch_config (now sample_world) ''ffv1_10bit_422''
     (output_base_directory batch_config @ [now sample_world])
     (input_directory batch_config @ [''a'', ''x.mkv'']) =
   Inr [''G:'', ''YOUTUBE_CHANNEL_MEDIA'', ''DitheryDoo'', ''vapourized'',
        ''2024-01-01_00-00-00'', ''a'', ''x_2024-01-01_00-00-00_ffv1_10bit_422.mkv'']"
    unfolding job_output_path_batch [OF batch_config_selected batch_config_batch]
    by (simp add: batch_config_def shipped_config_def sample_world_def parent_def stem_def
          stem_of_def path_name_def)
  from batch_config_selected batch_config_batch m e v show ?thesis by (intro conjI)
qed






text \<open>
  On Windows the inputs \<^verbatim>\<open>Clip.mov\<close> and \<^verbatim>\<open>clip.mkv\<close> differ in stem, their output paths
  differ as texts, and yet the two paths name the same file.
\<close>

lemma windows_case_collision:
  "find_video_files windows_world (input_directory batch_config)
     (process_subdirectories batch_config) =
     [input_directory batch_config @ [''Clip.mov''],
      input_directory batch_config @ [''clip.mkv'']] \<and>
   stem (input_directory batch_config @ [''Clip.mov'']) \<noteq>
     stem (input_directory batch_config @ [''clip.mkv'']) \<and>
   job_output_path windows_world batch_config ''2024-01-01_00-00-00'' ''ffv1_10bit_422''
     (output_base_directory batch_config @ [''2024-01-01_00-00-00''])
     (input_directory batch_config @ [''Clip.mov'']) =
   Inr [''G:'', ''YOUTUBE_CHANNEL_MEDIA'', ''DitheryDoo'', ''vapourized'',
        ''2024-01-01_00-00-00'', ''Clip_2024-01-01_00-00-00_ffv1_10bit_422.mkv''] \<and>
   job_output_path windows_world batch_config ''2024-01-01_00-00-00'' ''ffv1_10bit_422''
     (output_base_directory batch_config @ [''2024-01-01_00-00-00''])
     (input_directory batch_config @ [''clip.mkv'']) =
   Inr [''G:'', ''YOUTUBE_CHANNEL_MEDIA'', ''DitheryDoo'', ''vapourized'',
        ''2024-01-01_00-00-00'', ''clip_2024-01-01_00-00-00_ffv1_10bit_422.mkv''] \<and>
   same_path windows_world
     [''G:'', ''YOUTUBE_CHANNEL_MEDIA'', ''DitheryDoo'', ''vapourized'',
      ''2024-01-01_00-00-00'', ''Clip_2024-01-01_00-00-00_ffv1_10bit_422.mkv'']
     [''G:'', ''YOUTUBE_CHANNEL_MEDIA'', ''DitheryDoo'', ''vapourized'',
      ''2024-01-01_00-00-00'', ''clip_2024-01-01_00-00-00_ffv1_10bit_422.mkv'']"
proof -
  have f: "find_video_files windows_world (input_directory batch_config)
     (process_subdirectories batch_config) =
     [input_directory batch_config @ [''Clip.mov''],
      input_directory batch_config @ [''clip.mkv'']]"
    by (simp add: find_video_files_def glob_def windows_world_def sample_world_def
          batch_config_def shipped_config_def suffix_def suffix_of_def path_name_def
          ascii_case_defs supported_extensions_def)
  have s: "stem (input_directory batch_config @ [''Clip.mov'']) \<noteq>
     stem (input_directory batch_config @ [''clip.mkv''])"
    by (simp add: stem_def stem_of_def path_name_def)
  have o1: "job_output_path windows_world batch_config ''2024-01-01_00-00-00''
     ''ffv1_10bit_422'' (output_base_directory batch_config @ [''2024-01-01_00-00-00''])
     (input_directory batch_config @ [''Clip.mov'']) =
   Inr [''G:'', ''YOUTUBE_CHANNEL_MEDIA'', ''DitheryDoo'', ''vapourized'',
        ''2024-01-01_00-00-00'', ''Clip_2024-01-01_00-00-00_ffv1_10bit_422.mkv'']"
    unfolding job_output_path_batch [OF batch_config_selected batch_config_batch]
    by (simp add: batch_config_def shipped_config_def parent_def stem_def
          stem_of_def path_name_def)
  have o2: "job_output_path windows_world batch_config ''2024-01-01_00-00-00''
     ''ffv1_10bit_422'' (output_base_directory batch_config @ [''2024-01-01_00-00-00''])
     (input_directory batch_config @ [''clip.mkv'']) =
   Inr [''G:'', ''YOUTUBE_CHANNEL_MEDIA'', ''DitheryDoo'', ''vapourized'',
        ''2024-01-01_00-00-00'', ''clip_2024-01-01_00-00-00_ffv1_10bit_422.mkv'']"
    unfolding job_output_path_batch [OF batch_config_selected batch_config_batch]
    by (simp add: batch_config_def shipped_config_def parent_def stem_def
          stem_of_def path_name_def)
  have l: "ascii_lower ''Clip_2024-01-01_00-00-00_ffv1_10bit_422.mkv'' =
           ascii_lower ''clip_2024-01-01_00-00-00_ffv1_10bit_422.mkv''"
    by (simp add: ascii_case_defs)
  have p: "same_path windows_world
     [''G:'', ''YOUTUBE_CHANNEL_MEDIA'', ''DitheryDoo'', ''vapourized'',
      ''2024-01-01_00-00-00'', ''Clip_2024-01-01_00-00-00_ffv1_10bit_422.mkv'']
     [''G:'', ''YOUTUBE_CHANNEL_MEDIA'', ''DitheryDoo'', ''vapourized'',
      ''2024-01-01_00-00-00'', ''clip_2024-01-01_00-00-00_ffv1_10bit_422.mkv'']"
    by (simp add: same_path_def windows_world_def sample_world_def l)
  from f s o1 o2 p show ?thesis by (intro conjI)
qed

section \<open>Startup validation\<close>

lemma str_nat_digit: "n < 10 \<Longrightarrow> str_nat n = [''0123456789'' ! n]"
  by (simp add: str_nat.simps)


lemma invalid_selection:
  assumes "length (filter id [enable_prores_422_hq_10bit cfg, enable_prores_444_16bit cfg,
                              enable_ffv1_10bit_422 cfg, enable_ffv1_12bit_444 cfg]) \<noteq> 1"
  shows "get_selected_format cfg = None"
  using assms
  by (cases "enable_prores_422_hq_10bit cfg"; cases "enable_prores_444_16bit cfg";
      cases "enable_ffv1_10bit_422 cfg"; cases "enable_ffv1_12bit_444 cfg")
     (simp_all add: get_selected_format_def)

lemma main_body_invalid:
  assumes "get_selected_format cfg = None"
  shows "main_body encs cfg w timestamp output_dir =
           ([Log INFO ''DitheryDoo processing started.'',
             Log INFO (''Output directory: '' @ str_path w output_dir),
             Log INFO ''Validating configuration...'',
             Log ERROR ''Configuration error: Exactly one output format must be enabled.''],
            SysExit 1)"
  by (simp add: main_body_def assms)

lemma sample_logging_level: "logging_level sample_world shipped_config = Inr 20"
  by (simp add: logging_level_def sample_world_def shipped_config_def ascii_case_defs)

text \<open>
  Claim C7, as the code has it. When no format flag or more than one is enabled, the run
  ends with exit status 1 before any job: no frame source or encoder is started, the encoder
  entry point is not called, and the loop's directory creation is never reached. By then the
  run has already created its timestamped output directory and opened the log file in it,
  which happens before anything is validated; that directory is the only one created, and
  the log holds those of the three start-up lines and the configuration error that the
  configured level lets through. (If creating the directory or setting the level raises,
  the run ends on that exception, also with status 1.)
\<close>

theorem C7_invalid_selection_aborts:
  assumes "length (filter id [enable_prores_422_hq_10bit cfg, enable_prores_444_16bit cfg,
                              enable_ffv1_10bit_422 cfg, enable_ffv1_12bit_444 cfg]) \<noteq> 1"
  shows "main cfg w =
           (case mkdir_raises w (output_base_directory cfg @ [now w]) of
              Some e \<Rightarrow> ([Mkdir (output_base_directory cfg @ [now w])], Uncaught e)
            | None \<Rightarrow>
                (case logging_level w cfg of
                   Inl e \<Rightarrow>
                     ([Mkdir (output_base_directory cfg @ [now w]),
                       OpenLog (output_base_directory cfg @ [now w] @ [''process.log''])],
                      Uncaught e)
                 | Inr threshold \<Rightarrow>
                     ([Mkdir (output_base_directory cfg @ [now w]),
                       OpenLog (output_base_directory cfg @ [now w] @ [''process.log''])] @
                      filter (emitted threshold)
                        [Log INFO ''DitheryDoo processing started.'',
                         Log INFO (''Output directory: '' @
                                   str_path w (output_base_directory cfg @ [now w])),
                         Log INFO ''Validating configuration...'',
                         Log ERROR
                           ''Configuration error: Exactly one output format must be enabled.''],
                      SysExit 1))) \<and>
         exit_code (snd (main cfg w)) = 1"
proof -
  note b = main_body_invalid [OF invalid_selection [OF assms]]
  have m: "main cfg w =
           (case mkdir_raises w (output_base_directory cfg @ [now w]) of
              Some e \<Rightarrow> ([Mkdir (output_base_directory cfg @ [now w])], Uncaught e)
            | None \<Rightarrow>
                (case logging_level w cfg of
                   Inl e \<Rightarrow>
                     ([Mkdir (output_base_directory cfg @ [now w]),
                       OpenLog (output_base_directory cfg @ [now w] @ [''process.log''])],
                      Uncaught e)
                 | Inr threshold \<Rightarrow>
                     ([Mkdir (output_base_directory cfg @ [now w]),
                       OpenLog (output_base_directory cfg @ [now w] @ [''process.log''])] @
                      filter (emitted threshold)
                        [Log INFO ''DitheryDoo processing started.'',
                         Log INFO (''Output directory: '' @
                                   str_path w (output_base_directory cfg @ [now w])),
                         Log INFO ''Validating configuration...'',
                         Log ERROR
                           ''Configuration error: Exactly one output format must be enabled.''],
                      SysExit 1)))"
    unfolding main_def main_with_def Let_def b
    by (simp split: option.splits sum.splits)
  have x: "exit_code (snd (main cfg w)) = 1"
    unfolding m by (simp split: option.splits sum.splits)
  from m x show ?thesis by (rule conjI)
qed

theorem C7_invalid_selection_aborts_witness:
  "length (filter id [enable_prores_422_hq_10bit no_format_config,
                      enable_prores_444_16bit no_format_config,
                      enable_ffv1_10bit_422 no_format_config,
                      enable_ffv1_12bit_444 no_format_config]) \<noteq> 1 \<and>
   exit_code (snd (main no_format_config sample_world)) = 1"
proof -
  have h: "length (filter id [enable_prores_422_hq_10bit no_format_config,
                      enable_prores_444_16bit no_format_config,
                      enable_ffv1_10bit_422 no_format_config,
                      enable_ffv1_12bit_444 no_format_config]) \<noteq> 1"
    by (simp add: no_format_config_def shipped_config_def)
  from C7_invalid_selection_aborts [OF h, where w = sample_world] have
    "exit_code (snd (main no_format_config sample_world)) = 1"
    by (rule conjunct2)
  with h show ?thesis by (intro conjI)
qed

text \<open>
  The claim as stated, that no output directory for jobs is produced, fails for the shipped
  single-file configuration with its flag switched off: the run exits with status 1, yet it
  has created the timestamped directory, which is the very directory the job of single-file
  mode writes into.
\<close>

theorem C7_run_directory_counterexample:
  "get_selected_format no_format_config = None \<and>
   \<not> batch_process_directory no_format_config \<and>
   main no_format_config sample_world =
     ([Mkdir [''G:'', ''YOUTUBE_CHANNEL_MEDIA'', ''DitheryDoo'', ''vapourized'',
              ''2024-01-01_00-00-00''],
       OpenLog [''G:'', ''YOUTUBE_CHANNEL_MEDIA'', ''DitheryDoo'', ''vapourized'',
                ''2024-01-01_00-00-00'', ''process.log''],
       Log INFO ''DitheryDoo processing started.'',
       Log INFO
         ''Output directory: G:/YOUTUBE_CHANNEL_MEDIA/DitheryDoo/vapourized/2024-01-01_00-00-00'',
       Log INFO ''Validating configuration...'',
       Log ERROR ''Configuration error: Exactly one output format must be enabled.''],
      SysExit 1) \<and>
   output_file_dir sample_world no_format_config
     (output_base_directory no_format_config @ [now sample_world])
     (input_file no_format_config) =
   Inr [''G:'', ''YOUTUBE_CHANNEL_MEDIA'', ''DitheryDoo'', ''vapourized'',
        ''2024-01-01_00-00-00'']"
proof -
  have g: "get_selected_format no_format_config = None"
    by (simp add: get_selected_format_def no_format_config_def shipped_config_def)
  have s: "\<not> batch_process_directory no_format_config"
    by (simp add: no_format_config_def shipped_config_def)
  have l: "logging_level sample_world no_format_config = Inr 20"
    by (simp add: logging_level_def sample_world_def no_format_config_def shipped_config_def
          ascii_case_defs)
  have m: "main no_format_config sample_world =
     ([Mkdir [''G:'', ''YOUTUBE_CHANNEL_MEDIA'', ''DitheryDoo'', ''vapourized'',
              ''2024-01-01_00-00-00''],
       OpenLog [''G:'', ''YOUTUBE_CHANNEL_MEDIA'', ''DitheryDoo'', ''vapourized'',
                ''2024-01-01_00-00-00'', ''process.log''],
       Log INFO ''DitheryDoo processing started.'',
       Log INFO
         ''Output directory: G:/YOUTUBE_CHANNEL_MEDIA/DitheryDoo/vapourized/2024-01-01_00-00-00'',
       Log INFO ''Validating configuration...'',
       Log ERROR ''Configuration error: Exactly one output format must be enabled.''],
      SysExit 1)"
    unfolding main_def main_with_def Let_def l main_body_invalid [OF g]
    by (simp add: no_format_config_def shipped_config_def sample_world_def str_path_def
          path_sep_def emitted_def)
  have d: "output_file_dir sample_world no_format_config
     (output_base_directory no_format_config @ [now sample_world])
     (input_file no_format_config) =
   Inr [''G:'', ''YOUTUBE_CHANNEL_MEDIA'', ''DitheryDoo'', ''vapourized'',
        ''2024-01-01_00-00-00'']"
    by (simp add: output_file_dir_def no_format_config_def shipped_config_def
          sample_world_def)
  from g s m d show ?thesis by (intro conjI)
qed

text \<open>
  With the log level \<^verbatim>\<open>warning\<close> the same run leaves only the configuration error in the
  log.
\<close>

lemma main_warning_level:
  "logging_level sample_world warning_config = Inr 30 \<and>
   main warning_config sample_world =
     ([Mkdir [''G:'', ''YOUTUBE_CHANNEL_MEDIA'', ''DitheryDoo'', ''vapourized'',
              ''2024-01-01_00-00-00''],
       OpenLog [''G:'', ''YOUTUBE_CHANNEL_MEDIA'', ''DitheryDoo'', ''vapourized'',
                ''2024-01-01_00-00-00'', ''process.log''],
       Log ERROR ''Configuration error: Exactly one output format must be enabled.''],
      SysExit 1)"
proof -
  have g: "get_selected_format warning_config = None"
    by (simp add: get_selected_format_def warning_config_def no_format_config_def
          shipped_config_def)
  have l: "logging_level sample_world warning_config = Inr 30"
    by (simp add: logging_level_def sample_world_def warning_config_def ascii_case_defs)
  have m: "main warning_config sample_world =
     ([Mkdir [''G:'', ''YOUTUBE_CHANNEL_MEDIA'', ''DitheryDoo'', ''vapourized'',
              ''2024-01-01_00-00-00''],
       OpenLog [''G:'', ''YOUTUBE_CHANNEL_MEDIA'', ''DitheryDoo'', ''vapourized'',
                ''2024-01-01_00-00-00'', ''process.log''],
       Log ERROR ''Configuration error: Exactly one output format must be enabled.''],
      SysExit 1)"
    unfolding main_def main_with_def Let_def l main_body_invalid [OF g]
    by (simp add: warning_config_def no_format_config_def shipped_config_def
          sample_world_def emitted_def)
  from l m show ?thesis by (rule conjI)
qed

section \<open>The job loop\<close>

lemma is_log_outcome_log: "is_log (outcome_log w r f out)"
  by (cases r) (simp_all add: outcome_log_def split: bool.splits)

lemma not_is_call_outcome_log: "\<not> is_call (outcome_log w r f out)"
  by (cases r) (simp_all add: outcome_log_def split: bool.splits)

lemma process_file_calls:
  assumes "plain_encoder enc"
  shows "filter is_call (process_file enc cfg w f out fmt vpy) =
           [CallEncode (str_path w f) (str_path w out) fmt]"
  using assms
  by (simp add: process_file_def plain_encoder_def Let_def case_prod_beta
        not_is_call_outcome_log)

lemma process_file_log:
  assumes "plain_encoder enc"
  shows "filter is_log (process_file enc cfg w f out fmt vpy) =
           [Log INFO (''Processing file: '' @ str_path w f),
            outcome_log w (snd (enc (str_path w f) (str_path w out) fmt (str_path w vpy)
                                (job_env cfg w f fmt))) f out]"
  using assms
  by (simp add: process_file_def plain_encoder_def Let_def case_prod_beta is_log_outcome_log)

lemma job_step_created:
  assumes "get_selected_format cfg = Some fmt"
      and "output_file_dir w cfg od f = Inr d" and "mkdir_raises w d = None"
  shows "\<exists>out. job_output_path w cfg ts fmt od f = Inr out \<and>
           job_step encs cfg w ts fmt od vpy n_total i f =
             ([Log INFO (''--- Processing file '' @ str_nat (i + 1) @ ''/'' @
                         str_nat n_total @ '' ---''), Mkdir d] @
              process_file (encs i) cfg w f out fmt vpy, None)"
  by (simp add: job_output_path_def job_step_def assms output_filename_def
        file_ext_selected [OF assms(1)] Let_def)

lemma run_jobs_Cons_created:
  assumes "job_step encs cfg w ts fmt od vpy n_total i f = (evs, None)"
  shows "run_jobs encs cfg w ts fmt od vpy n_total i (f # fs) =
           (evs @ fst (run_jobs encs cfg w ts fmt od vpy n_total (Suc i) fs),
            snd (run_jobs encs cfg w ts fmt od vpy n_total (Suc i) fs))"
  by (simp add: assms case_prod_beta)

lemma run_jobs_Cons_raised:
  assumes "job_step encs cfg w ts fmt od vpy n_total i f = (evs, Some e)"
  shows "run_jobs encs cfg w ts fmt od vpy n_total i (f # fs) = (evs, Some e)"
  by (simp add: assms)

text \<open>
  The loop when the directory of every job can be computed and created without an exception:
  whatever the encoder does, no exception leaves the loop, the calls of the encoder entry
  point are exactly those of the files in discovery order, and the calls of the logging
  module are, per file and in order, the header, the start line and the outcome line
  (success, failure, or the exception the encoder raised).
\<close>

lemma run_jobs_attempts_every_file:
  assumes "get_selected_format cfg = Some fmt"
      and "\<forall>f \<in> set files. \<exists>d. output_file_dir w cfg od f = Inr d \<and> mkdir_raises w d = None"
      and "\<forall>k. plain_encoder (encs k)"
  shows "snd (run_jobs encs cfg w ts fmt od vpy n_total i files) = None \<and>
         filter is_call (fst (run_jobs encs cfg w ts fmt od vpy n_total i files)) =
           concat (map (job_call w cfg ts fmt od) files) \<and>
         filter is_log (fst (run_jobs encs cfg w ts fmt od vpy n_total i files)) =
           concat (map (job_log encs cfg w ts fmt od vpy n_total) (List.enumerate i files))"
  using assms(2)
proof (induction files arbitrary: i)
  case Nil
  show ?case by simp
next
  case (Cons f fs)
  from Cons.prems obtain d
    where d: "output_file_dir w cfg od f = Inr d" "mkdir_raises w d = None"
    by auto
  from job_step_created [OF assms(1) d, of ts encs vpy n_total i] obtain out
    where out: "job_output_path w cfg ts fmt od f = Inr out"
      and step: "job_step encs cfg w ts fmt od vpy n_total i f =
             ([Log INFO (''--- Processing file '' @ str_nat (i + 1) @ ''/'' @
                         str_nat n_total @ '' ---''), Mkdir d] @
              process_file (encs i) cfg w f out fmt vpy, None)"
    by (elim exE conjE)
  from assms(3) have p: "plain_encoder (encs i)" ..
  from Cons.prems have rest:
    "\<forall>f \<in> set fs. \<exists>d. output_file_dir w cfg od f = Inr d \<and> mkdir_raises w d = None"
    by simp
  note ih = Cons.IH [OF rest, of "Suc i"]
  note run = run_jobs_Cons_created [OF step, of fs]
  have 1: "snd (run_jobs encs cfg w ts fmt od vpy n_total i (f # fs)) = None"
    unfolding run using ih by simp
  have jc: "job_call w cfg ts fmt od f = [CallEncode (str_path w f) (str_path w out) fmt]"
    by (simp add: job_call_def out)
  have jl: "job_log encs cfg w ts fmt od vpy n_total (i, f) =
              [Log INFO (''--- Processing file '' @ str_nat (i + 1) @ ''/'' @
                         str_nat n_total @ '' ---''),
               Log INFO (''Processing file: '' @ str_path w f),
               outcome_log w
                 (snd (encs i (str_path w f) (str_path w out) fmt (str_path w vpy)
                         (job_env cfg w f fmt)))
                 f out]"
    by (simp add: job_log_def out)
  have 2: "filter is_call (fst (run_jobs encs cfg w ts fmt od vpy n_total i (f # fs))) =
             concat (map (job_call w cfg ts fmt od) (f # fs))"
    unfolding run using ih
    by (simp add: process_file_calls [OF p] jc)
  have 3: "filter is_log (fst (run_jobs encs cfg w ts fmt od vpy n_total i (f # fs))) =
             concat (map (job_log encs cfg w ts fmt od vpy n_total)
                       (List.enumerate i (f # fs)))"
    unfolding run using ih
    by (simp add: process_file_log [OF p] jl)
  from 1 2 3 show ?case by (intro conjI)
qed

lemma handle_exn_plain:
  "filter is_call (handle_exn e) = [] \<and> filter is_log (handle_exn e) = []"
  by (cases e) (simp_all add: handle_exn_def)

lemma run_pipeline_plain:
  "filter is_call (fst (run_pipeline vcmd fcmd env w)) = [] \<and>
   filter is_log (fst (run_pipeline vcmd fcmd env w)) = []"
proof (cases "vspipe_spawn w")
  case (Some e)
  then show ?thesis by (simp add: run_pipeline_def handle_exn_plain)
next
  case v: None
  show ?thesis
  proof (cases "ffmpeg_spawn w")
    case (Some e)
    with v show ?thesis by (simp add: run_pipeline_def handle_exn_plain)
  next
    case f: None
    show ?thesis
    proof (cases "decode_utf8 (ffmpeg_stderr w)")
      case (Inl e)
      with v f show ?thesis by (simp add: run_pipeline_def handle_exn_plain)
    next
      case (Inr diag)
      with v f show ?thesis by (simp add: run_pipeline_def)
    qed
  qed
qed

lemma encode_video_plain:
  "filter is_call (fst (encode_video a b c d e w)) = [] \<and>
   filter is_log (fst (encode_video a b c d e w)) = []"
proof (cases "map_of ENCODING_PROFILES c")
  case None
  then show ?thesis by (simp add: encode_video_def)
next
  case (Some p)
  show ?thesis
  proof (cases "is_empty_profile p")
    case True
    with Some show ?thesis by (simp add: encode_video_def)
  next
    case False
    show ?thesis
    proof (cases "ffmpeg_cmd p a b")
      case (Inl x)
      with Some False show ?thesis by (simp add: encode_video_def)
    next
      case (Inr fcmd)
      with Some False show ?thesis
        by (simp add: encode_video_def Let_def case_prod_beta run_pipeline_plain)
    qed
  qed
qed

lemma real_encoders_plain: "plain_encoder (real_encoders w k)"
  by (simp add: plain_encoder_def real_encoders_def encode_video_plain)

lemma found_dirs_created:
  assumes "batch_process_directory cfg"
      and "\<forall>p. mkdir_raises w p = None"
  shows "\<forall>f \<in> set (find_video_files w (input_directory cfg) r).
           \<exists>d. output_file_dir w cfg od f = Inr d \<and> mkdir_raises w d = None"
proof
  fix f
  assume "f \<in> set (find_video_files w (input_directory cfg) r)"
  from find_video_files_member [OF this] obtain rel
    where rel: "f = input_directory cfg @ rel"
    by (elim exE conjE)
  have "output_file_dir w cfg od f = Inr (od @ parent rel)"
    unfolding rel by (simp add: output_file_dir_def assms(1) relative_to_append)
  with assms(2) show "\<exists>d. output_file_dir w cfg od f = Inr d \<and> mkdir_raises w d = None"
    by simp
qed

text \<open>
  Claim C6 says that no failure while a file is processed, an exception included, keeps the
  later files from being attempted. The code guards the call of the encoder and nothing else
  in the body of the loop: the creation of the job's output subdirectory in line 229 stands
  outside every \<^verbatim>\<open>try\<close>. In the run below two files are discovered, creating the
  subdirectory of the first raises, the exception ends the run, and the second file is never
  attempted: its header is not logged and the encoder is not called for it.
\<close>

theorem C6_unguarded_mkdir_evaluation:
  "find_video_files full_disk_world (input_directory batch_config)
     (process_subdirectories batch_config) =
     [input_directory batch_config @ [''a'', ''x.mkv''],
      input_directory batch_config @ [''b'', ''y.mkv'']] \<and>
   main batch_config full_disk_world =
     ([Mkdir [''G:'', ''YOUTUBE_CHANNEL_MEDIA'', ''DitheryDoo'', ''vapourized'',
              ''2024-01-01_00-00-00''],
       OpenLog [''G:'', ''YOUTUBE_CHANNEL_MEDIA'', ''DitheryDoo'', ''vapourized'',
                ''2024-01-01_00-00-00'', ''process.log''],
       Log INFO ''DitheryDoo processing started.'',
       Log INFO
         ''Output directory: G:/YOUTUBE_CHANNEL_MEDIA/DitheryDoo/vapourized/2024-01-01_00-00-00'',
       Log INFO ''Validating configuration...'',
       Log INFO ''Selected output format: ffv1_10bit_422'',
       Log INFO ''Checking dependencies (VapourSynth, FFmpeg)...'',
       Run [''ffmpeg'', ''-h''],
       Run [''vspipe'', ''-h''],
       Log INFO ''Dependencies check passed.'',
       Log INFO
         ''Starting batch processing for directory: G:/00_development_projects/DitheryDoo/input'',
       Log INFO ''Found 2 file(s) to process.'',
       Log INFO ''--- Processing file 1/2 ---'',
       Mkdir [''G:'', ''YOUTUBE_CHANNEL_MEDIA'', ''DitheryDoo'', ''vapourized'',
              ''2024-01-01_00-00-00'', ''a'']],
      Uncaught (OSError ''[Errno 28] No space left on device''))"
proof -
  have found: "find_video_files full_disk_world (input_directory batch_config)
     (process_subdirectories batch_config) =
     [input_directory batch_config @ [''a'', ''x.mkv''],
      input_directory batch_config @ [''b'', ''y.mkv'']]"
    by (simp add: find_video_files_def glob_def full_disk_world_def batch_config_def
        shipped_config_def suffix_def suffix_of_def path_name_def ascii_case_defs
        supported_extensions_def)
  have step: "job_step (real_encoders full_disk_world) batch_config full_disk_world
      ''2024-01-01_00-00-00'' ''ffv1_10bit_422''
      [''G:'', ''YOUTUBE_CHANNEL_MEDIA'', ''DitheryDoo'', ''vapourized'', ''2024-01-01_00-00-00'']
      [''app'', ''process.vpy''] (Suc (Suc 0)) 0 (input_directory batch_config @ [''a'', ''x.mkv'']) =
      ([Log INFO ''--- Processing file 1/2 ---'',
        Mkdir [''G:'', ''YOUTUBE_CHANNEL_MEDIA'', ''DitheryDoo'', ''vapourized'',
               ''2024-01-01_00-00-00'', ''a'']],
       Some (OSError ''[Errno 28] No space left on device''))"
    by (simp add: job_step_def output_file_dir_def batch_config_batch relative_to_append
          parent_def full_disk_world_def str_nat_digit)
  have deps: "check_dependencies full_disk_world =
                ([Run [''ffmpeg'', ''-h''], Run [''vspipe'', ''-h'']], Inr True)"
    by (simp add: check_dependencies_def full_disk_world_def)
  have disc: "discover batch_config full_disk_world =
     ([Log INFO
         ''Starting batch processing for directory: G:/00_development_projects/DitheryDoo/input''],
      Inr [input_directory batch_config @ [''a'', ''x.mkv''],
           input_directory batch_config @ [''b'', ''y.mkv'']])"
    unfolding discover_def found
    by (simp add: batch_config_def shipped_config_def str_path_def path_sep_def
          full_disk_world_def)
  have sel: "run_selected (real_encoders full_disk_world) batch_config full_disk_world
      ''2024-01-01_00-00-00''
      [''G:'', ''YOUTUBE_CHANNEL_MEDIA'', ''DitheryDoo'', ''vapourized'', ''2024-01-01_00-00-00'']
      ''ffv1_10bit_422'' =
     ([Log INFO ''Selected output format: ffv1_10bit_422'',
       Log INFO ''Checking dependencies (VapourSynth, FFmpeg)...'',
       Run [''ffmpeg'', ''-h''],
       Run [''vspipe'', ''-h''],
       Log INFO ''Dependencies check passed.'',
       Log INFO
         ''Starting batch processing for directory: G:/00_development_projects/DitheryDoo/input'',
       Log INFO ''Found 2 file(s) to process.'',
       Log INFO ''--- Processing file 1/2 ---'',
       Mkdir [''G:'', ''YOUTUBE_CHANNEL_MEDIA'', ''DitheryDoo'', ''vapourized'',
              ''2024-01-01_00-00-00'', ''a'']],
      Uncaught (OSError ''[Errno 28] No space left on device''))"
  proof -
    have vpy: "script_dir full_disk_world @ [''process.vpy''] = [''app'', ''process.vpy'']"
      by (simp add: full_disk_world_def)
    note run = run_jobs_Cons_raised [OF step,
        of "[input_directory batch_config @ [''b'', ''y.mkv'']]"]
    show ?thesis
      unfolding run_selected_def deps disc
      by (simp add: vpy run str_nat_digit del: run_jobs.simps)
  qed
  have od: "output_base_directory batch_config @ [''2024-01-01_00-00-00''] =
      [''G:'', ''YOUTUBE_CHANNEL_MEDIA'', ''DitheryDoo'', ''vapourized'', ''2024-01-01_00-00-00'']"
    by (simp add: batch_config_def shipped_config_def full_disk_world_def)
  have n: "now full_disk_world = ''2024-01-01_00-00-00''"
    by (simp add: full_disk_world_def)
  have mk: "mkdir_raises full_disk_world
      [''G:'', ''YOUTUBE_CHANNEL_MEDIA'', ''DitheryDoo'', ''vapourized'', ''2024-01-01_00-00-00''] =
      None"
    by (simp add: full_disk_world_def)
  have sp: "str_path full_disk_world
      [''G:'', ''YOUTUBE_CHANNEL_MEDIA'', ''DitheryDoo'', ''vapourized'', ''2024-01-01_00-00-00''] =
      ''G:/YOUTUBE_CHANNEL_MEDIA/DitheryDoo/vapourized/2024-01-01_00-00-00''"
    by (simp add: str_path_def path_sep_def full_disk_world_def)
  have lv: "logging_level full_disk_world batch_config = Inr 20"
    by (simp add: logging_level_def full_disk_world_def batch_config_def shipped_config_def
          ascii_case_defs)
  have m: "main batch_config full_disk_world =
     ([Mkdir [''G:'', ''YOUTUBE_CHANNEL_MEDIA'', ''DitheryDoo'', ''vapourized'',
              ''2024-01-01_00-00-00''],
       OpenLog [''G:'', ''YOUTUBE_CHANNEL_MEDIA'', ''DitheryDoo'', ''vapourized'',
                ''2024-01-01_00-00-00'', ''process.log''],
       Log INFO ''DitheryDoo processing started.'',
       Log INFO
         ''Output directory: G:/YOUTUBE_CHANNEL_MEDIA/DitheryDoo/vapourized/2024-01-01_00-00-00'',
       Log INFO ''Validating configuration...'',
       Log INFO ''Selected output format: ffv1_10bit_422'',
       Log INFO ''Checking dependencies (VapourSynth, FFmpeg)...'',
       Run [''ffmpeg'', ''-h''],
       Run [''vspipe'', ''-h''],
       Log INFO ''Dependencies check passed.'',
       Log INFO
         ''Starting batch processing for directory: G:/00_development_projects/DitheryDoo/input'',
       Log INFO ''Found 2 file(s) to process.'',
       Log INFO ''--- Processing file 1/2 ---'',
       Mkdir [''G:'', ''YOUTUBE_CHANNEL_MEDIA'', ''DitheryDoo'', ''vapourized'',
              ''2024-01-01_00-00-00'', ''a'']],
      Uncaught (OSError ''[Errno 28] No space left on device''))"
    unfolding main_def main_with_def main_body_def Let_def n od mk lv
      batch_config_selected
    by (simp add: sel sp emitted_def)
  from found m show ?thesis by (intro conjI)
qed

lemma encode_video_returns:
  assumes "map_of ENCODING_PROFILES format_name = Some p"
      and "vspipe_spawn w = None" and "ffmpeg_spawn w = None"
  shows "snd (encode_video input_path output_path format_name vpy_script process_env w) =
           Inr (ffmpeg_returncode w = 0)"
proof -
  from encode_video_found [OF assms(1), of input_path output_path vpy_script process_env w]
  obtain fcmd where
    e: "encode_video input_path output_path format_name vpy_script process_env w =
          ([PrintOut (''VSPipe command: '' @ join '' '' (vspipe_cmd vpy_script)),
            PrintOut (''FFmpeg command: '' @ join '' '' fcmd)] @
           fst (run_pipeline (vspipe_cmd vpy_script) fcmd process_env w),
           Inr (snd (run_pipeline (vspipe_cmd vpy_script) fcmd process_env w)))"
    by (elim exE conjE)
  show ?thesis
    by (simp only: e snd_conv run_pipeline_launched [OF assms(2) assms(3)])
qed

lemma one_failure_found:
  "find_video_files one_failure_world (input_directory batch_config)
     (process_subdirectories batch_config) =
   [input_directory batch_config @ [''clip.mov''],
    input_directory batch_config @ [''clip.mkv''],
    input_directory batch_config @ [''a'', ''x.mkv'']]"
  by (simp add: find_video_files_def glob_def one_failure_world_def sample_world_def
        batch_config_def shipped_config_def suffix_def suffix_of_def path_name_def
        ascii_case_defs supported_extensions_def)

lemma ffv1_lookup:
  "map_of ENCODING_PROFILES ''ffv1_10bit_422'' =
     Some \<lparr>codec = Some ''ffv1'', profile = None, level = Some ''3'',
           pix_fmt = Some ''yuv422p10le'',
           extra_args = Some [''-coder'', ''1'', ''-context'', ''1'', ''-g'', ''1'']\<rparr>"
  by (simp add: ENCODING_PROFILES_def)

lemma one_failure_results:
  "snd (real_encoders one_failure_world k a b ''ffv1_10bit_422'' d e) = Inr (k \<noteq> 1)"
proof (cases "k = 1")
  case True
  have v: "vspipe_spawn (procs one_failure_world k) = None"
    and f: "ffmpeg_spawn (procs one_failure_world k) = None"
    and r: "ffmpeg_returncode (procs one_failure_world k) = 1"
    using True by (simp_all add: one_failure_world_def proc_nonzero_exit_def)
  show ?thesis
    unfolding real_encoders_def encode_video_returns [OF ffv1_lookup v f] r
    using True by simp
next
  case False
  have v: "vspipe_spawn (procs one_failure_world k) = None"
    and f: "ffmpeg_spawn (procs one_failure_world k) = None"
    and r: "ffmpeg_returncode (procs one_failure_world k) = 0"
    using False by (simp_all add: one_failure_world_def proc_success_def)
  show ?thesis
    unfolding real_encoders_def encode_video_returns [OF ffv1_lookup v f] r
    using False by simp
qed

lemma run_jobs_one_failure_example:
  "snd (run_jobs (real_encoders one_failure_world) batch_config one_failure_world
          ''2024-01-01_00-00-00'' ''ffv1_10bit_422''
          (output_base_directory batch_config @ [''2024-01-01_00-00-00''])
          [''app'', ''process.vpy''] 3 0
          [input_directory batch_config @ [''clip.mov''],
           input_directory batch_config @ [''clip.mkv''],
           input_directory batch_config @ [''a'', ''x.mkv'']]) = None \<and>
   filter is_call
     (fst (run_jobs (real_encoders one_failure_world) batch_config one_failure_world
          ''2024-01-01_00-00-00'' ''ffv1_10bit_422''
          (output_base_directory batch_config @ [''2024-01-01_00-00-00''])
          [''app'', ''process.vpy''] 3 0
          [input_directory batch_config @ [''clip.mov''],
           input_directory batch_config @ [''clip.mkv''],
           input_directory batch_config @ [''a'', ''x.mkv'']])) =
     [CallEncode ''G:/00_development_projects/DitheryDoo/input/clip.mov''
        (''G:/YOUTUBE_CHANNEL_MEDIA/DitheryDoo/vapourized/2024-01-01_00-00-00/'' @
         ''clip_2024-01-01_00-00-00_ffv1_10bit_422.mkv'')
        ''ffv1_10bit_422'',
      CallEncode ''G:/00_development_projects/DitheryDoo/input/clip.mkv''
        (''G:/YOUTUBE_CHANNEL_MEDIA/DitheryDoo/vapourized/2024-01-01_00-00-00/'' @
         ''clip_2024-01-01_00-00-00_ffv1_10bit_422.mkv'')
        ''ffv1_10bit_422'',
      CallEncode ''G:/00_development_projects/DitheryDoo/input/a/x.mkv''
        (''G:/YOUTUBE_CHANNEL_MEDIA/DitheryDoo/vapourized/2024-01-01_00-00-00/a/'' @
         ''x_2024-01-01_00-00-00_ffv1_10bit_422.mkv'')
        ''ffv1_10bit_422''] \<and>
   filter is_log
     (fst (run_jobs (real_encoders one_failure_world) batch_config one_failure_world
          ''2024-01-01_00-00-00'' ''ffv1_10bit_422''
          (output_base_directory batch_config @ [''2024-01-01_00-00-00''])
          [''app'', ''process.vpy''] 3 0
          [input_directory batch_config @ [''clip.mov''],
           input_directory batch_config @ [''clip.mkv''],
           input_directory batch_config @ [''a'', ''x.mkv'']])) =
     [Log INFO ''--- Processing file 1/3 ---'',
      Log INFO ''Processing file: G:/00_development_projects/DitheryDoo/input/clip.mov'',
      Log INFO
        (''Successfully processed and saved to '' @
         ''G:/YOUTUBE_CHANNEL_MEDIA/DitheryDoo/vapourized/2024-01-01_00-00-00/'' @
         ''clip_2024-01-01_00-00-00_ffv1_10bit_422.mkv''),
      Log INFO ''--- Processing file 2/3 ---'',
      Log INFO ''Processing file: G:/00_development_projects/DitheryDoo/input/clip.mkv'',
      Log ERROR
        ''Failed to process file: G:/00_development_projects/DitheryDoo/input/clip.mkv'',
      Log INFO ''--- Processing file 3/3 ---'',
      Log INFO ''Processing file: G:/00_development_projects/DitheryDoo/input/a/x.mkv'',
      Log INFO
        (''Successfully processed and saved to '' @
         ''G:/YOUTUBE_CHANNEL_MEDIA/DitheryDoo/vapourized/2024-01-01_00-00-00/a/'' @
         ''x_2024-01-01_00-00-00_ffv1_10bit_422.mkv'')]"
proof -
  have quiet: "\<forall>p. mkdir_raises one_failure_world p = None"
    by (simp add: one_failure_world_def sample_world_def)
  note dirs = found_dirs_created [OF batch_config_batch quiet,
      of "process_subdirectories batch_config"
         "output_base_directory batch_config @ [''2024-01-01_00-00-00'']",
      unfolded one_failure_found]
  have plain: "\<forall>k. plain_encoder (real_encoders one_failure_world k)"
    by (simp add: real_encoders_plain)
  note t = run_jobs_attempts_every_file [OF batch_config_selected dirs plain,
      where ts = "''2024-01-01_00-00-00''" and vpy = "[''app'', ''process.vpy'']"
        and n_total = 3 and i = 0]
  have o1: "job_output_path one_failure_world batch_config ''2024-01-01_00-00-00'' ''ffv1_10bit_422''
      (output_base_directory batch_config @ [''2024-01-01_00-00-00''])
      (input_directory batch_config @ [''clip.mov'']) =
      Inr [''G:'', ''YOUTUBE_CHANNEL_MEDIA'', ''DitheryDoo'', ''vapourized'',
           ''2024-01-01_00-00-00'', ''clip_2024-01-01_00-00-00_ffv1_10bit_422.mkv'']"
    unfolding job_output_path_batch [OF batch_config_selected batch_config_batch]
    by (simp add: batch_config_def shipped_config_def parent_def stem_def
          stem_of_def path_name_def)
  have o2: "job_output_path one_failure_world batch_config ''2024-01-01_00-00-00'' ''ffv1_10bit_422''
      (output_base_directory batch_config @ [''2024-01-01_00-00-00''])
      (input_directory batch_config @ [''clip.mkv'']) =
      Inr [''G:'', ''YOUTUBE_CHANNEL_MEDIA'', ''DitheryDoo'', ''vapourized'',
           ''2024-01-01_00-00-00'', ''clip_2024-01-01_00-00-00_ffv1_10bit_422.mkv'']"
    unfolding job_output_path_batch [OF batch_config_selected batch_config_batch]
    by (simp add: batch_config_def shipped_config_def parent_def stem_def
          stem_of_def path_name_def)
  have o3: "job_output_path one_failure_world batch_config ''2024-01-01_00-00-00'' ''ffv1_10bit_422''
      (output_base_directory batch_config @ [''2024-01-01_00-00-00''])
      (input_directory batch_config @ [''a'', ''x.mkv'']) =
      Inr [''G:'', ''YOUTUBE_CHANNEL_MEDIA'', ''DitheryDoo'', ''vapourized'',
           ''2024-01-01_00-00-00'', ''a'', ''x_2024-01-01_00-00-00_ffv1_10bit_422.mkv'']"
    unfolding job_output_path_batch [OF batch_config_selected batch_config_batch]
    by (simp add: batch_config_def shipped_config_def parent_def stem_def
          stem_of_def path_name_def)
  have s1: "str_path one_failure_world (input_directory batch_config @ [''clip.mov'']) =
              ''G:/00_development_projects/DitheryDoo/input/clip.mov''"
    by (simp add: batch_config_def shipped_config_def str_path_def path_sep_def
          one_failure_world_def sample_world_def)
  have s2: "str_path one_failure_world (input_directory batch_config @ [''clip.mkv'']) =
              ''G:/00_development_projects/DitheryDoo/input/clip.mkv''"
    by (simp add: batch_config_def shipped_config_def str_path_def path_sep_def
          one_failure_world_def sample_world_def)
  have s3: "str_path one_failure_world (input_directory batch_config @ [''a'', ''x.mkv'']) =
              ''G:/00_development_projects/DitheryDoo/input/a/x.mkv''"
    by (simp add: batch_config_def shipped_config_def str_path_def path_sep_def
          one_failure_world_def sample_world_def)
  have t1: "str_path one_failure_world [''G:'', ''YOUTUBE_CHANNEL_MEDIA'', ''DitheryDoo'', ''vapourized'',
           ''2024-01-01_00-00-00'', ''clip_2024-01-01_00-00-00_ffv1_10bit_422.mkv''] =
      ''G:/YOUTUBE_CHANNEL_MEDIA/DitheryDoo/vapourized/2024-01-01_00-00-00/'' @
      ''clip_2024-01-01_00-00-00_ffv1_10bit_422.mkv''"
    by (simp add: str_path_def path_sep_def one_failure_world_def sample_world_def)
  have t3: "str_path one_failure_world [''G:'', ''YOUTUBE_CHANNEL_MEDIA'', ''DitheryDoo'', ''vapourized'',
           ''2024-01-01_00-00-00'', ''a'', ''x_2024-01-01_00-00-00_ffv1_10bit_422.mkv''] =
      ''G:/YOUTUBE_CHANNEL_MEDIA/DitheryDoo/vapourized/2024-01-01_00-00-00/a/'' @
      ''x_2024-01-01_00-00-00_ffv1_10bit_422.mkv''"
    by (simp add: str_path_def path_sep_def one_failure_world_def sample_world_def)
  have calls: "concat (map (job_call one_failure_world batch_config ''2024-01-01_00-00-00'' ''ffv1_10bit_422''
                   (output_base_directory batch_config @ [''2024-01-01_00-00-00'']))
                 [input_directory batch_config @ [''clip.mov''],
                  input_directory batch_config @ [''clip.mkv''],
                  input_directory batch_config @ [''a'', ''x.mkv'']]) =
     [CallEncode ''G:/00_development_projects/DitheryDoo/input/clip.mov''
        (''G:/YOUTUBE_CHANNEL_MEDIA/DitheryDoo/vapourized/2024-01-01_00-00-00/'' @
         ''clip_2024-01-01_00-00-00_ffv1_10bit_422.mkv'')
        ''ffv1_10bit_422'',
      CallEncode ''G:/00_development_projects/DitheryDoo/input/clip.mkv''
        (''G:/YOUTUBE_CHANNEL_MEDIA/DitheryDoo/vapourized/2024-01-01_00-00-00/'' @
         ''clip_2024-01-01_00-00-00_ffv1_10bit_422.mkv'')
        ''ffv1_10bit_422'',
      CallEncode ''G:/00_development_projects/DitheryDoo/input/a/x.mkv''
        (''G:/YOUTUBE_CHANNEL_MEDIA/DitheryDoo/vapourized/2024-01-01_00-00-00/a/'' @
         ''x_2024-01-01_00-00-00_ffv1_10bit_422.mkv'')
        ''ffv1_10bit_422'']"
    by (simp only: list.map concat.simps append_Nil2 append_Cons append_Nil job_call_def
          o1 o2 o3 sum.case s1 s2 s3 t1 t3)
  have logs: "concat (map (job_log (real_encoders one_failure_world) batch_config
                   one_failure_world ''2024-01-01_00-00-00'' ''ffv1_10bit_422''
                   (output_base_directory batch_config @ [''2024-01-01_00-00-00''])
                   [''app'', ''process.vpy''] 3)
                 (List.enumerate 0
                   [input_directory batch_config @ [''clip.mov''],
                    input_directory batch_config @ [''clip.mkv''],
                    input_directory batch_config @ [''a'', ''x.mkv'']])) =
     [Log INFO ''--- Processing file 1/3 ---'',
      Log INFO ''Processing file: G:/00_development_projects/DitheryDoo/input/clip.mov'',
      Log INFO
        (''Successfully processed and saved to '' @
         ''G:/YOUTUBE_CHANNEL_MEDIA/DitheryDoo/vapourized/2024-01-01_00-00-00/'' @
         ''clip_2024-01-01_00-00-00_ffv1_10bit_422.mkv''),
      Log INFO ''--- Processing file 2/3 ---'',
      Log INFO ''Processing file: G:/00_development_projects/DitheryDoo/input/clip.mkv'',
      Log ERROR
        ''Failed to process file: G:/00_development_projects/DitheryDoo/input/clip.mkv'',
      Log INFO ''--- Processing file 3/3 ---'',
      Log INFO ''Processing file: G:/00_development_projects/DitheryDoo/input/a/x.mkv'',
      Log INFO
        (''Successfully processed and saved to '' @
         ''G:/YOUTUBE_CHANNEL_MEDIA/DitheryDoo/vapourized/2024-01-01_00-00-00/a/'' @
         ''x_2024-01-01_00-00-00_ffv1_10bit_422.mkv'')]"
    by (simp add: job_log_def o1 o2 o3 s1 s2 s3 t1 t3 one_failure_results outcome_log_def
          str_nat_digit)
  from t show ?thesis unfolding calls logs .
qed

end
